theory Spec2Isabelle
  imports Main
begin

section \<open>Strings\<close>

text \<open>
  A Python \<^verbatim>\<open>str\<close> is represented by its UTF-8 encoding, a list of bytes;
  file names are the bytes the operating system stores. Equality,
  concatenation, \<^verbatim>\<open>s.startswith(p)\<close>, \<^verbatim>\<open>s.endswith(p)\<close> and splitting at an ASCII
  character are the same on the encoding as on the code points.
\<close>

fun startswith :: "string \<Rightarrow> string \<Rightarrow> bool" where
  "startswith s [] = True"
| "startswith [] (p # ps) = False"
| "startswith (c # s) (p # ps) = (c = p \<and> startswith s ps)"

definition endswith :: "string \<Rightarrow> string \<Rightarrow> bool" where
  "endswith s p = startswith (rev s) (rev p)"

text \<open>
  \<^verbatim>\<open>f"{n}"\<close> for a non-negative integer: its decimal digits, most significant
  first, no leading zero.
\<close>

definition digit :: "nat \<Rightarrow> char" where
  "digit d = ''0123456789'' ! (d mod 10)"

fun str_nat :: "nat \<Rightarrow> string" where
  "str_nat n = (if n < 10 then [digit n] else str_nat (n div 10) @ [digit n])"

declare str_nat.simps [simp del]

text \<open>
  \<^verbatim>\<open>s.strip()\<close> removes the white space of Unicode at both ends. These are the
  code points U+0009 to U+000D, U+001C to U+0020, U+0085, U+00A0, U+1680,
  U+2000 to U+200A, U+2028, U+2029, U+202F, U+205F and U+3000, which UTF-8
  encodes in one, two or three bytes.
\<close>

definition byte :: "char \<Rightarrow> nat" where
  "byte c = of_char c"

definition isspace1 :: "char \<Rightarrow> bool" where
  "isspace1 a = ((9 \<le> byte a \<and> byte a \<le> 13) \<or> (28 \<le> byte a \<and> byte a \<le> 32))"

definition isspace2 :: "char \<Rightarrow> char \<Rightarrow> bool" where
  "isspace2 a b = (byte a = 0xC2 \<and> (byte b = 0x85 \<or> byte b = 0xA0))"

definition isspace3 :: "char \<Rightarrow> char \<Rightarrow> char \<Rightarrow> bool" where
  "isspace3 a b c =
     ((byte a = 0xE1 \<and> byte b = 0x9A \<and> byte c = 0x80)
      \<or> (byte a = 0xE2 \<and> byte b = 0x80 \<and>
          ((0x80 \<le> byte c \<and> byte c \<le> 0x8A) \<or> byte c = 0xA8 \<or> byte c = 0xA9 \<or> byte c = 0xAF))
      \<or> (byte a = 0xE2 \<and> byte b = 0x81 \<and> byte c = 0x9F)
      \<or> (byte a = 0xE3 \<and> byte b = 0x80 \<and> byte c = 0x80))"

fun lstrip :: "string \<Rightarrow> string" where
  "lstrip [] = []"
| "lstrip [a] = (if isspace1 a then [] else [a])"
| "lstrip [a, b] = (if isspace1 a then lstrip [b] else if isspace2 a b then [] else [a, b])"
| "lstrip (a # b # c # s) =
     (if isspace1 a then lstrip (b # c # s)
      else if isspace2 a b then lstrip (c # s)
      else if isspace3 a b c then lstrip s
      else a # b # c # s)"

text \<open>The same from the right end, on the reversed string.\<close>

fun rstrip_rev :: "string \<Rightarrow> string" where
  "rstrip_rev [] = []"
| "rstrip_rev [c] = (if isspace1 c then [] else [c])"
| "rstrip_rev [c, b] = (if isspace1 c then rstrip_rev [b] else if isspace2 b c then [] else [c, b])"
| "rstrip_rev (c # b # a # s) =
     (if isspace1 c then rstrip_rev (b # a # s)
      else if isspace2 b c then rstrip_rev (a # s)
      else if isspace3 a b c then rstrip_rev s
      else c # b # a # s)"

definition strip :: "string \<Rightarrow> string" where
  "strip s = rev (rstrip_rev (rev (lstrip s)))"

text \<open>
  Decoding a file as UTF-8: the bytes are well-formed when every sequence is
  one of the forms of the Unicode standard (no overlong form, no surrogate,
  nothing above U+10FFFF). The decoded text is then represented by the same
  bytes.
\<close>

definition cont :: "char \<Rightarrow> bool" where
  "cont b = (0x80 \<le> byte b \<and> byte b \<le> 0xBF)"

definition second3 :: "char \<Rightarrow> char \<Rightarrow> bool" where
  "second3 a b =
     (if byte a = 0xE0 then 0xA0 \<le> byte b \<and> byte b \<le> 0xBF
      else if byte a = 0xED then 0x80 \<le> byte b \<and> byte b \<le> 0x9F
      else cont b)"

definition second4 :: "char \<Rightarrow> char \<Rightarrow> bool" where
  "second4 a b =
     (if byte a = 0xF0 then 0x90 \<le> byte b \<and> byte b \<le> 0xBF
      else if byte a = 0xF4 then 0x80 \<le> byte b \<and> byte b \<le> 0x8F
      else cont b)"

fun utf8_valid :: "string \<Rightarrow> bool" where
  "utf8_valid [] = True"
| "utf8_valid (a # s) =
     (if byte a < 0x80 then utf8_valid s
      else if 0xC2 \<le> byte a \<and> byte a \<le> 0xDF then
        (case s of b # s' \<Rightarrow> cont b \<and> utf8_valid s' | _ \<Rightarrow> False)
      else if 0xE0 \<le> byte a \<and> byte a \<le> 0xEF then
        (case s of b # c # s' \<Rightarrow> second3 a b \<and> cont c \<and> utf8_valid s' | _ \<Rightarrow> False)
      else if 0xF0 \<le> byte a \<and> byte a \<le> 0xF4 then
        (case s of b # c # d # s' \<Rightarrow> second4 a b \<and> cont c \<and> cont d \<and> utf8_valid s'
         | _ \<Rightarrow> False)
      else False)"

text \<open>
  Reading in text mode with universal newlines: a carriage return followed by
  a line feed, and a carriage return alone, become one line feed.
\<close>

fun universal_newlines :: "string \<Rightarrow> string" where
  "universal_newlines [] = []"
| "universal_newlines [a] = [if a = CHR 0x0D then CHR 0x0A else a]"
| "universal_newlines (a # b # s) =
     (if a = CHR 0x0D \<and> b = CHR 0x0A then CHR 0x0A # universal_newlines s
      else if a = CHR 0x0D then CHR 0x0A # universal_newlines (b # s)
      else a # universal_newlines (b # s))"

section \<open>Values of literals\<close>

text \<open>
  What \<^verbatim>\<open>ast.literal_eval\<close> can return: strings, bytes, numbers, tuples, lists,
  dicts, sets, booleans and \<^verbatim>\<open>None\<close>. A floating point or complex number and
  \<^verbatim>\<open>Ellipsis\<close> are kept as their source text.
\<close>

datatype pyvalue =
    PyNone
  | PyBool bool
  | PyInt int
  | PyStr string
  | PyBytes string
  | PyTuple "pyvalue list"
  | PyList "pyvalue list"
  | PySet "pyvalue list"
  | PyDict "(pyvalue \<times> pyvalue) list"
  | PyOther string

section \<open>Paths\<close>

text \<open>
  A \<^verbatim>\<open>pathlib.Path\<close> on a POSIX host: its anchor (empty for a relative path,
  \<^verbatim>\<open>/\<close>, or \<^verbatim>\<open>//\<close> for a path that starts with exactly two slashes) and its
  components. Parsing splits at \<^verbatim>\<open>/\<close> and drops empty components and \<^verbatim>\<open>.\<close>
  (so a trailing slash is immaterial); \<^verbatim>\<open>..\<close> is kept.
\<close>

record path =
  anchor :: string
  parts :: "string list"

fun split_slash :: "string \<Rightarrow> string list" where
  "split_slash [] = [[]]"
| "split_slash (c # s) =
     (if c = CHR ''/'' then [] # split_slash s
      else (case split_slash s of [] \<Rightarrow> [[c]] | w # ws \<Rightarrow> (c # w) # ws))"

definition path_parts :: "string \<Rightarrow> string list" where
  "path_parts s = filter (\<lambda>w. w \<noteq> [] \<and> w \<noteq> ''.'') (split_slash s)"

definition is_abs :: "string \<Rightarrow> bool" where
  "is_abs s = startswith s ''/''"

definition anchor_of :: "string \<Rightarrow> string" where
  "anchor_of s =
     (if startswith s ''//'' \<and> \<not> startswith s ''///'' then ''//''
      else if startswith s ''/'' then ''/''
      else [])"

definition Path :: "string \<Rightarrow> path" where
  "Path s = \<lparr>anchor = anchor_of s, parts = path_parts s\<rparr>"

text \<open>\<^verbatim>\<open>p / s\<close>: an absolute right operand replaces the left one.\<close>

definition pjoin :: "path \<Rightarrow> string \<Rightarrow> path" where
  "pjoin p s = (if is_abs s then Path s else p\<lparr>parts := parts p @ path_parts s\<rparr>)"

text \<open>\<^verbatim>\<open>p.parent\<close>: the path without its last component; a path with no component
  is its own parent.\<close>

definition parent :: "path \<Rightarrow> path" where
  "parent p = p\<lparr>parts := butlast (parts p)\<rparr>"

text \<open>\<^verbatim>\<open>p.name\<close>: the last component, the empty string when there is none.\<close>

definition name :: "path \<Rightarrow> string" where
  "name p = (if parts p = [] then [] else last (parts p))"

fun join_slash :: "string list \<Rightarrow> string" where
  "join_slash [] = []"
| "join_slash [w] = w"
| "join_slash (w # v # ws) = w @ ''/'' @ join_slash (v # ws)"

text \<open>\<^verbatim>\<open>str(p)\<close>.\<close>

definition str_path :: "path \<Rightarrow> string" where
  "str_path p =
     (if anchor p = [] \<and> parts p = [] then ''.'' else anchor p @ join_slash (parts p))"

section \<open>Exceptions\<close>

text \<open>
  The exceptions that can leave the program. \<^verbatim>\<open>OSError\<close> carries its error
  number; Python raises it as \<^verbatim>\<open>FileNotFoundError\<close>, \<^verbatim>\<open>NotADirectoryError\<close>,
  \<^verbatim>\<open>PermissionError\<close> or \<^verbatim>\<open>IsADirectoryError\<close> for the numbers that have a
  subclass.
\<close>

datatype errno =
  ENOENT | ENOTDIR | EBADF | ELOOP | EACCES | ENAMETOOLONG | EISDIR | EIO | ENOMEM

datatype exn =
    OSError errno
  | ValueError
  | SyntaxError
  | UnicodeDecodeError
  | ImportError string
  | CalledProcessError int

abbreviation FileNotFoundError :: exn where
  "FileNotFoundError \<equiv> OSError ENOENT"

abbreviation NotADirectoryError :: exn where
  "NotADirectoryError \<equiv> OSError ENOTDIR"

abbreviation PermissionError :: exn where
  "PermissionError \<equiv> OSError EACCES"

abbreviation IsADirectoryError :: exn where
  "IsADirectoryError \<equiv> OSError EISDIR"

section \<open>The host file system\<close>

text \<open>
  The file system is what the operating system answers: \<^verbatim>\<open>os.stat\<close> gives the
  kind of the file a path names, \<^verbatim>\<open>os.listdir\<close> the names in a directory in
  listing order, and reading gives the bytes of a file; each may raise instead.
  Nothing is assumed about the answers, except that they do not change while
  one function of the program runs.
\<close>

datatype kind = RegularFile | Directory | Special

record filesystem =
  os_stat :: "path \<Rightarrow> exn + kind"
  os_listdir :: "path \<Rightarrow> exn + string list"
  os_read :: "path \<Rightarrow> exn + string"

text \<open>
  \<^verbatim>\<open>p.exists()\<close> and \<^verbatim>\<open>p.is_dir()\<close> call \<^verbatim>\<open>stat\<close>. They answer \<^verbatim>\<open>False\<close> for the
  error numbers \<^verbatim>\<open>ENOENT\<close>, \<^verbatim>\<open>ENOTDIR\<close>, \<^verbatim>\<open>EBADF\<close> and \<^verbatim>\<open>ELOOP\<close> and for a
  \<^verbatim>\<open>ValueError\<close>, and raise every other exception again (\<^verbatim>\<open>pathlib\<close> of
  Python 3.10 to 3.12).
\<close>

definition ignore_error :: "exn \<Rightarrow> bool" where
  "ignore_error e =
     (e = OSError ENOENT \<or> e = OSError ENOTDIR \<or> e = OSError EBADF \<or> e = OSError ELOOP
      \<or> e = ValueError)"

definition exists :: "filesystem \<Rightarrow> path \<Rightarrow> exn + bool" where
  "exists fs p =
     (case os_stat fs p of
        Inr k \<Rightarrow> Inr True
      | Inl e \<Rightarrow> if ignore_error e then Inr False else Inl e)"

definition is_dir :: "filesystem \<Rightarrow> path \<Rightarrow> exn + bool" where
  "is_dir fs p =
     (case os_stat fs p of
        Inr k \<Rightarrow> Inr (k = Directory)
      | Inl e \<Rightarrow> if ignore_error e then Inr False else Inl e)"

text \<open>
  \<^verbatim>\<open>p.iterdir()\<close>: the children of a directory as paths, in listing order; an
  exception of the listing is raised as it is.
\<close>

definition iterdir :: "filesystem \<Rightarrow> path \<Rightarrow> exn + path list" where
  "iterdir fs p =
     (case os_listdir fs p of
        Inl e \<Rightarrow> Inl e
      | Inr names \<Rightarrow> Inr (map (\<lambda>n. p\<lparr>parts := parts p @ [n]\<rparr>) names))"

text \<open>\<^verbatim>\<open>p.read_text(encoding="utf-8")\<close>.\<close>

definition path_read_text :: "filesystem \<Rightarrow> path \<Rightarrow> exn + string" where
  "path_read_text fs p =
     (case os_read fs p of
        Inl e \<Rightarrow> Inl e
      | Inr bytes \<Rightarrow>
          if utf8_valid bytes then Inr (universal_newlines bytes) else Inl UnicodeDecodeError)"

subsection \<open>A file system given by a tree\<close>

text \<open>
  A concrete file system: a tree of regular files and directories, and the
  working directory against which a relative path is resolved. A directory
  lists its children in the order given. \<open>Locked\<close> is a directory without any
  permission for the caller: it can be named, but neither listed nor searched.
  A component of more than 255 bytes is refused.
\<close>

datatype node =
    File string
  | Dir "(string \<times> node) list"
  | Locked "(string \<times> node) list"

text \<open>
  Path resolution, component by component. The first argument is the node
  reached so far together with its ancestors, innermost first; \<^verbatim>\<open>..\<close> steps
  back to the parent (the root is its own parent).
\<close>

fun walk :: "node list \<Rightarrow> string list \<Rightarrow> errno + node" where
  "walk [] cs = Inl ENOENT"
| "walk (n # anc) [] = Inr n"
| "walk (File t # anc) (c # cs) = Inl ENOTDIR"
| "walk (Locked es # anc) (c # cs) = Inl EACCES"
| "walk (Dir es # anc) (c # cs) =
     (if c = ''..'' then walk (if anc = [] then [Dir es] else anc) cs
      else if 255 < length c then Inl ENAMETOOLONG
      else (case map_of es c of
              None \<Rightarrow> Inl ENOENT
            | Some m \<Rightarrow> walk (m # Dir es # anc) cs))"

definition resolve :: "node \<Rightarrow> string list \<Rightarrow> path \<Rightarrow> errno + node" where
  "resolve t cwd p = walk [t] ((if anchor p = [] then cwd else []) @ parts p)"

definition tree_fs :: "node \<Rightarrow> string list \<Rightarrow> filesystem" where
  "tree_fs t cwd =
     \<lparr>os_stat = (\<lambda>p. case resolve t cwd p of
                       Inl e \<Rightarrow> Inl (OSError e)
                     | Inr (File b) \<Rightarrow> Inr RegularFile
                     | Inr (Dir es) \<Rightarrow> Inr Directory
                     | Inr (Locked es) \<Rightarrow> Inr Directory),
      os_listdir = (\<lambda>p. case resolve t cwd p of
                       Inl e \<Rightarrow> Inl (OSError e)
                     | Inr (File b) \<Rightarrow> Inl (OSError ENOTDIR)
                     | Inr (Dir es) \<Rightarrow> Inr (map fst es)
                     | Inr (Locked es) \<Rightarrow> Inl (OSError EACCES)),
      os_read = (\<lambda>p. case resolve t cwd p of
                       Inl e \<Rightarrow> Inl (OSError e)
                     | Inr (File b) \<Rightarrow> Inr b
                     | Inr (Dir es) \<Rightarrow> Inl (OSError EISDIR)
                     | Inr (Locked es) \<Rightarrow> Inl (OSError EISDIR))\<rparr>"

section \<open>Package and metadata lookup\<close>

text \<open>
  \<^verbatim>\<open>locate_package(package_name)\<close>. The module-level list \<^verbatim>\<open>PACKAGE_DIR\<close> and the
  file system are arguments. The loop appends to \<^verbatim>\<open>paths\<close>, root after root;
  \<^verbatim>\<open>is_dir()\<close> is called only when \<^verbatim>\<open>exists()\<close> answered \<^verbatim>\<open>True\<close>, and an
  exception of either leaves the function.
\<close>

fun locate_package_loop ::
  "filesystem \<Rightarrow> string list \<Rightarrow> string \<Rightarrow> path list \<Rightarrow> exn + path list" where
  "locate_package_loop fs [] package_name paths = Inr paths"
| "locate_package_loop fs (directory # rest) package_name paths =
     (let p = pjoin (Path directory) package_name
      in case exists fs p of
           Inl e \<Rightarrow> Inl e
         | Inr found \<Rightarrow>
             if \<not> found then locate_package_loop fs rest package_name paths
             else (case is_dir fs p of
                     Inl e \<Rightarrow> Inl e
                   | Inr d \<Rightarrow>
                       if d then locate_package_loop fs rest package_name (paths @ [p])
                       else locate_package_loop fs rest package_name paths))"

definition locate_package :: "filesystem \<Rightarrow> string list \<Rightarrow> string \<Rightarrow> exn + path list" where
  "locate_package fs PACKAGE_DIR package_name =
     locate_package_loop fs PACKAGE_DIR package_name []"

text \<open>
  The test of lines 86 to 98 on one directory entry; \<^verbatim>\<open>entry.is_dir()\<close> is
  evaluated first and may raise.
\<close>

definition entry_matches :: "filesystem \<Rightarrow> string \<Rightarrow> path \<Rightarrow> exn + bool" where
  "entry_matches fs pkgname entry =
     (case is_dir fs entry of
        Inl e \<Rightarrow> Inl e
      | Inr d \<Rightarrow>
          Inr (d \<and>
            ((startswith (name entry) (pkgname @ ''-'') \<and>
              (endswith (name entry) ''.dist-info'' \<or> endswith (name entry) ''.egg-info''))
             \<or> (name entry = pkgname @ ''.dist-info'' \<or> name entry = pkgname @ ''.egg-info''))))"

text \<open>The inner loop: the first entry that passes the test is returned.\<close>

fun scan_entries :: "filesystem \<Rightarrow> string \<Rightarrow> path list \<Rightarrow> exn + path option" where
  "scan_entries fs pkgname [] = Inr None"
| "scan_entries fs pkgname (entry # rest) =
     (case entry_matches fs pkgname entry of
        Inl e \<Rightarrow> Inl e
      | Inr m \<Rightarrow> if m then Inr (Some entry) else scan_entries fs pkgname rest)"

text \<open>
  \<^verbatim>\<open>locate_dist_info_dir(pkgname)\<close>, with \<^verbatim>\<open>DIST_INFO_DIR\<close> and the file system as
  arguments. A root for which \<^verbatim>\<open>exists()\<close> answers \<^verbatim>\<open>False\<close> is passed over; an
  exception of \<^verbatim>\<open>exists()\<close>, of the listing or of the test leaves the function.
\<close>

fun locate_dist_info_dir :: "filesystem \<Rightarrow> string list \<Rightarrow> string \<Rightarrow> exn + path option" where
  "locate_dist_info_dir fs [] pkgname = Inr None"
| "locate_dist_info_dir fs (directory # rest) pkgname =
     (case exists fs (Path directory) of
        Inl e \<Rightarrow> Inl e
      | Inr found \<Rightarrow>
          if \<not> found then locate_dist_info_dir fs rest pkgname
          else (case iterdir fs (Path directory) of
                  Inl e \<Rightarrow> Inl e
                | Inr entries \<Rightarrow>
                    (case scan_entries fs pkgname entries of
                       Inl e \<Rightarrow> Inl e
                     | Inr (Some entry) \<Rightarrow> Inr (Some entry)
                     | Inr None \<Rightarrow> locate_dist_info_dir fs rest pkgname)))"

section \<open>The metadata-reading object\<close>

text \<open>
  \<^verbatim>\<open>class IsolatedDistribution\<close>: the two attributes its constructor sets. The
  constructor raises \<^verbatim>\<open>ImportError\<close> when the lookup returns \<^verbatim>\<open>None\<close> (a path
  object is never false), and lets an exception of the lookup through.
\<close>

record IsolatedDistribution =
  self_pkgname :: string
  self_dist_info :: path

definition IsolatedDistribution_init ::
  "filesystem \<Rightarrow> string list \<Rightarrow> string \<Rightarrow> exn + IsolatedDistribution" where
  "IsolatedDistribution_init fs DIST_INFO_DIR pkgname =
     (case locate_dist_info_dir fs DIST_INFO_DIR pkgname of
        Inl e \<Rightarrow> Inl e
      | Inr None \<Rightarrow> Inl (ImportError (''No dist-info found for '' @ pkgname))
      | Inr (Some d) \<Rightarrow> Inr \<lparr>self_pkgname = pkgname, self_dist_info = d\<rparr>)"

text \<open>\<^verbatim>\<open>read_text(self, filename)\<close>; \<^verbatim>\<open>None\<close> is the absent value.\<close>

definition read_text :: "filesystem \<Rightarrow> IsolatedDistribution \<Rightarrow> string \<Rightarrow> exn + string option" where
  "read_text fs self filename =
     (let file = pjoin (self_dist_info self) filename
      in case exists fs file of
           Inl e \<Rightarrow> Inl e
         | Inr found \<Rightarrow>
             if found
             then (case path_read_text fs file of Inl e \<Rightarrow> Inl e | Inr t \<Rightarrow> Inr (Some t))
             else Inr None)"

text \<open>\<^verbatim>\<open>locate_file(self, path)\<close>.\<close>

definition locate_file :: "IsolatedDistribution \<Rightarrow> string \<Rightarrow> path" where
  "locate_file self rel = pjoin (parent (self_dist_info self)) rel"

section \<open>The finder\<close>

text \<open>
  \<^verbatim>\<open>class IsolatedPackageFinder\<close>. Its dictionary \<^verbatim>\<open>package_dirs\<close> is kept as the
  list of its items in insertion order, the order \<^verbatim>\<open>items()\<close> iterates in.
  \<^verbatim>\<open>importlib.machinery.PathFinder.find_spec\<close> is the interpreter's own finder and
  a parameter \<open>pf\<close> here: it takes the module name and the search path and
  returns a spec or \<^verbatim>\<open>None\<close>.
\<close>

record IsolatedPackageFinder =
  package_dirs :: "(string \<times> path list) list"

text \<open>The inner loop of \<^verbatim>\<open>find_spec\<close>, over the directories of one package.\<close>

fun find_spec_paths :: "(string \<Rightarrow> string list \<Rightarrow> 'spec option) \<Rightarrow> string \<Rightarrow> path list \<Rightarrow> 'spec option" where
  "find_spec_paths pf fullname [] = None"
| "find_spec_paths pf fullname (p # rest) =
     (case pf fullname [str_path (parent p)] of
        Some spec \<Rightarrow> Some spec
      | None \<Rightarrow> find_spec_paths pf fullname rest)"

text \<open>The outer loop, over the items of the dictionary.\<close>

fun find_spec_items ::
  "(string \<Rightarrow> string list \<Rightarrow> 'spec option) \<Rightarrow> string \<Rightarrow> (string \<times> path list) list \<Rightarrow> 'spec option" where
  "find_spec_items pf fullname [] = None"
| "find_spec_items pf fullname ((pkg, pkg_paths) # rest) =
     (if fullname = pkg \<or> startswith fullname (pkg @ ''.'')
      then (case find_spec_paths pf fullname pkg_paths of
              Some spec \<Rightarrow> Some spec
            | None \<Rightarrow> find_spec_items pf fullname rest)
      else find_spec_items pf fullname rest)"

text \<open>
  \<^verbatim>\<open>find_spec(self, fullname, path=None, target=None)\<close>. The loop variable of the
  inner loop reuses the name \<^verbatim>\<open>path\<close>; the value passed in is never read.
\<close>

definition find_spec ::
  "(string \<Rightarrow> string list \<Rightarrow> 'spec option) \<Rightarrow> IsolatedPackageFinder \<Rightarrow> string \<Rightarrow>
     string list option \<Rightarrow> 'target option \<Rightarrow> 'spec option" where
  "find_spec pf self fullname path target = find_spec_items pf fullname (package_dirs self)"

text \<open>
  \<^verbatim>\<open>DistributionFinder.Context\<close>: of its attributes only \<^verbatim>\<open>name\<close> is read; it is
  \<^verbatim>\<open>None\<close> in a context built without arguments.
\<close>

record Context =
  ctx_name :: "string option"

text \<open>
  \<^verbatim>\<open>find_distributions(self, context=None)\<close> is a generator; the model gives what
  running it to its end produces, the list of the objects yielded or the
  exception raised. \<^verbatim>\<open>not context.name\<close> holds for \<^verbatim>\<open>None\<close> and for the empty
  string.
\<close>

definition find_distributions ::
  "filesystem \<Rightarrow> string list \<Rightarrow> IsolatedPackageFinder \<Rightarrow> Context option \<Rightarrow>
     exn + IsolatedDistribution list" where
  "find_distributions fs DIST_INFO_DIR self context =
     (let context = (case context of None \<Rightarrow> \<lparr>ctx_name = None\<rparr> | Some c \<Rightarrow> c)
      in case ctx_name context of
           None \<Rightarrow> Inr []
         | Some n \<Rightarrow>
             if n = [] then Inr []
             else if n \<in> set (map fst (package_dirs self))
             then (case IsolatedDistribution_init fs DIST_INFO_DIR n of
                     Inl e \<Rightarrow> Inl e
                   | Inr d \<Rightarrow> Inr [d])
             else Inr [])"

text \<open>
  The finder of lines 152 to 157, from the values of the two calls of
  \<^verbatim>\<open>locate_package\<close>, and lines 150 to 158 as a whole: the two calls are made in
  this order, and an exception of either leaves the module.
\<close>

definition meta_path_finder :: "path list \<Rightarrow> path list \<Rightarrow> IsolatedPackageFinder" where
  "meta_path_finder pyside6_dirs shiboken6_dirs =
     \<lparr>package_dirs = [(''PySide6'', pyside6_dirs), (''shiboken6'', shiboken6_dirs)]\<rparr>"

definition install_finder :: "filesystem \<Rightarrow> string list \<Rightarrow> exn + IsolatedPackageFinder" where
  "install_finder fs PACKAGE_DIR =
     (case locate_package fs PACKAGE_DIR ''PySide6'' of
        Inl e \<Rightarrow> Inl e
      | Inr pyside6_dirs \<Rightarrow>
          (case locate_package fs PACKAGE_DIR ''shiboken6'' of
             Inl e \<Rightarrow> Inl e
           | Inr shiboken6_dirs \<Rightarrow> Inr (meta_path_finder pyside6_dirs shiboken6_dirs)))"

section \<open>Layout resolution\<close>

text \<open>
  The host outside the interpreter: what \<^verbatim>\<open>subprocess.run\<close> returns or raises
  for an argument vector, and \<^verbatim>\<open>ast.literal_eval\<close>, which raises (\<^verbatim>\<open>ValueError\<close>,
  \<^verbatim>\<open>SyntaxError\<close>) or returns the value written in its argument, of whatever
  type that value is.
\<close>

record CompletedProcess =
  returncode :: int
  stdout :: string

record host =
  subprocess_run :: "string list \<Rightarrow> exn + CompletedProcess"
  literal_eval :: "string \<Rightarrow> exn + pyvalue"

definition site_command :: "string list" where
  "site_command =
     [''env'', ''-i'', ''python3'', ''-c'', ''import site; print(site.getsitepackages())'']"

text \<open>
  \<^verbatim>\<open>get_system_site()\<close>. The second argument and the second component of the
  result are the log of the subprocess calls made so far. \<^verbatim>\<open>check=True\<close> raises
  \<^verbatim>\<open>CalledProcessError\<close> on a non-zero exit status. The value of the parse is
  returned as it is.
\<close>

definition get_system_site :: "host \<Rightarrow> string list list \<Rightarrow> (exn + pyvalue) \<times> string list list" where
  "get_system_site h calls =
     (let calls' = calls @ [site_command]
      in case subprocess_run h site_command of
           Inl e \<Rightarrow> (Inl e, calls')
         | Inr cp \<Rightarrow>
             if returncode cp \<noteq> 0 then (Inl (CalledProcessError (returncode cp)), calls')
             else (literal_eval h (strip (stdout cp)), calls'))"

text \<open>
  Lines 36 to 53: from \<^verbatim>\<open>DISTRO\<close> and the two numbers of \<^verbatim>\<open>sys.version_info\<close> to
  the pair \<^verbatim>\<open>(PACKAGE_DIR, DIST_INFO_DIR)\<close>.
\<close>

definition resolve_layout ::
  "host \<Rightarrow> string \<Rightarrow> nat \<Rightarrow> nat \<Rightarrow> string list list \<Rightarrow>
     (exn + pyvalue \<times> pyvalue) \<times> string list list" where
  "resolve_layout h DISTRO major minor calls =
     (let VERS = str_nat major @ ''.'' @ str_nat minor
      in if DISTRO = ''fedora'' then
           (Inr (PyList [PyStr (''/usr/lib/python'' @ VERS @ ''/site-packages/'')],
                 PyList [PyStr (''/usr/lib64/python'' @ VERS @ ''/site-packages/'')]), calls)
         else if DISTRO = ''ubuntu'' then
           (Inr (PyList [PyStr ''/usr/lib/python3/dist-packages/''],
                 PyList [PyStr ''/usr/lib/python3/dist-packages/'']), calls)
         else if startswith DISTRO ''opensuse'' then
           (Inr (PyList [PyStr (''/usr/lib64/python'' @ VERS @ ''/site-packages/'')],
                 PyList [PyStr (''/usr/lib64/python'' @ VERS @ ''/site-packages/'')]), calls)
         else (case get_system_site h calls of
                 (Inl e, calls') \<Rightarrow> (Inl e, calls')
               | (Inr dirs, calls') \<Rightarrow> (Inr (dirs, dirs), calls')))"

section \<open>Example hosts\<close>

text \<open>
  A Fedora host with Python 3.12: the package under \<^verbatim>\<open>/usr/lib\<close>, its metadata
  under \<^verbatim>\<open>/usr/lib64\<close>. One metadata file has DOS line ends, one is not UTF-8.
\<close>

definition fedora_fs :: filesystem where
  "fedora_fs =
     tree_fs (Dir [(''usr'', Dir
        [(''lib'', Dir [(''python3.12'', Dir [(''site-packages'', Dir
           [(''PySide6'', Dir [(''QtCore.abi3.so'', File [])])])])]),
         (''lib64'', Dir [(''python3.12'', Dir [(''site-packages'', Dir
           [(''README'', File ''x''),
            (''PySide6-6.7.0.dist-info'', Dir
               [(''METADATA'', File ''Name: PySide6''),
                (''WHEEL'', File (''Tag: a'' @ [CHR 0x0D, CHR 0x0A] @ ''Tag: b'')),
                (''LICENSE'', File [CHR 0xE9])])])])])])]) []"

text \<open>A path finder that knows one search path.\<close>

definition fedora_pf :: "string \<Rightarrow> string list \<Rightarrow> string option" where
  "fedora_pf fullname search =
     (if search = [''/usr/lib/python3.12/site-packages''] then Some fullname else None)"

text \<open>
  A host where \<^verbatim>\<open>/r\<close> is a regular file, \<^verbatim>\<open>/locked\<close> a directory without
  permissions and \<^verbatim>\<open>/d\<close> an empty directory.
\<close>

definition file_root_fs :: filesystem where
  "file_root_fs = tree_fs (Dir [(''r'', File []), (''locked'', Locked []), (''d'', Dir [])]) []"

text \<open>
  A host with metadata under \<^verbatim>\<open>/m\<close> and \<^verbatim>\<open>/n\<close> and a regular file \<^verbatim>\<open>/f\<close>, and
  one with the metadata of a package named \<^verbatim>\<open>a\<close> only.
\<close>

definition two_fs :: filesystem where
  "two_fs =
     tree_fs (Dir [(''m'', Dir
        [(''Xtra.dist-info'', Dir []), (''X-2.1.dist-info'', File []),
         (''X-2.1.egg-info'', Dir []), (''X.dist-info'', Dir [])]),
        (''f'', File []),
        (''n'', Dir [(''X.egg-info'', Dir [])])]) []"

definition overlap_fs :: filesystem where
  "overlap_fs = tree_fs (Dir [(''m'', Dir [(''a.dist-info'', Dir [])])]) []"

text \<open>
  Five hosts: one whose \<^verbatim>\<open>python3\<close> reports one directory, one whose
  \<^verbatim>\<open>python3\<close> prints a string literal, one where the child process fails, one
  where it prints something that is no literal, and one without the \<^verbatim>\<open>env\<close>
  program.
\<close>

definition opt_host :: host where
  "opt_host =
     \<lparr>subprocess_run =
        (\<lambda>argv. Inr \<lparr>returncode = 0, stdout = ''['/opt/python/site-packages']'' @ [CHR 0x0A]\<rparr>),
      literal_eval =
        (\<lambda>s. if s = ''['/opt/python/site-packages']''
             then Inr (PyList [PyStr ''/opt/python/site-packages''])
             else Inl SyntaxError)\<rparr>"

definition str_host :: host where
  "str_host =
     \<lparr>subprocess_run =
        (\<lambda>argv. Inr \<lparr>returncode = 0, stdout = [CHR 0x27] @ ''/opt'' @ [CHR 0x27, CHR 0x0A]\<rparr>),
      literal_eval =
        (\<lambda>s. if s = [CHR 0x27] @ ''/opt'' @ [CHR 0x27] then Inr (PyStr ''/opt'')
             else Inl SyntaxError)\<rparr>"

definition failing_host :: host where
  "failing_host =
     \<lparr>subprocess_run = (\<lambda>argv. Inr \<lparr>returncode = 127, stdout = []\<rparr>),
      literal_eval = (\<lambda>s. Inl SyntaxError)\<rparr>"

definition garbled_host :: host where
  "garbled_host =
     \<lparr>subprocess_run = (\<lambda>argv. Inr \<lparr>returncode = 0, stdout = ''Traceback''\<rparr>),
      literal_eval = (\<lambda>s. Inl SyntaxError)\<rparr>"

definition missing_env_host :: host where
  "missing_env_host =
     \<lparr>subprocess_run = (\<lambda>argv. Inl FileNotFoundError),
      literal_eval = (\<lambda>s. Inl SyntaxError)\<rparr>"

text \<open>
  A host where \<^verbatim>\<open>/m\<close> can be listed but not searched (a directory with read
  permission only): its one child is named, but \<^verbatim>\<open>stat\<close> on the child is
  refused.
\<close>

definition listed_only_fs :: filesystem where
  "listed_only_fs =
     \<lparr>os_stat = (\<lambda>p. if p = Path ''/m'' then Inr Directory else Inl PermissionError),
      os_listdir = (\<lambda>p. if p = Path ''/m'' then Inr [''X.dist-info''] else Inl PermissionError),
      os_read = (\<lambda>p. Inl PermissionError)\<rparr>"

text \<open>The metadata-reading object of \<^verbatim>\<open>PySide6\<close> on the Fedora host.\<close>

definition fedora_dist :: IsolatedDistribution where
  "fedora_dist =
     \<lparr>self_pkgname = ''PySide6'',
      self_dist_info = Path ''/usr/lib64/python3.12/site-packages/PySide6-6.7.0.dist-info''\<rparr>"

section \<open>Auxiliary facts\<close>

lemmas fs_eval =
  locate_package_def Let_def pjoin_def Path_def is_abs_def anchor_of_def path_parts_def
  exists_def is_dir_def iterdir_def entry_matches_def name_def endswith_def parent_def
  str_path_def tree_fs_def resolve_def ignore_error_def path_read_text_def byte_def

lemma startswith_iff: "startswith s p \<longleftrightarrow> (\<exists>t. s = p @ t)"
  by (induction s p rule: startswith.induct) auto

lemma endswith_iff: "endswith s p \<longleftrightarrow> (\<exists>t. s = t @ p)"
proof -
  have "endswith s p \<longleftrightarrow> (\<exists>t. rev s = rev p @ t)"
    by (simp add: endswith_def startswith_iff)
  also have "\<dots> \<longleftrightarrow> (\<exists>t. s = t @ p)"
  proof
    assume "\<exists>t. rev s = rev p @ t"
    then obtain t where "rev s = rev p @ t" by blast
    then have "s = rev t @ p" by (metis rev_append rev_rev_ident)
    then show "\<exists>t. s = t @ p" by blast
  next
    assume "\<exists>t. s = t @ p"
    then obtain t where "s = t @ p" by blast
    then have "rev s = rev p @ rev t" by simp
    then show "\<exists>t. rev s = rev p @ t" by blast
  qed
  finally show ?thesis .
qed

text \<open>Both tests read the same answer of \<open>os_stat\<close>.\<close>

lemma exists_raises_iff: "exists fs p = Inl e \<longleftrightarrow> is_dir fs p = Inl e"
  by (auto simp: exists_def is_dir_def split: sum.splits if_splits)

lemma exists_False_is_dir: "exists fs p = Inr False \<Longrightarrow> is_dir fs p = Inr False"
  by (auto simp: exists_def is_dir_def split: sum.splits if_splits)

lemma is_dir_True_exists: "is_dir fs p = Inr True \<Longrightarrow> exists fs p = Inr True"
  by (auto simp: exists_def is_dir_def split: sum.splits if_splits)

lemma exists_True_is_dir: "exists fs p = Inr True \<Longrightarrow> \<exists>d. is_dir fs p = Inr d"
  by (auto simp: exists_def is_dir_def split: sum.splits if_splits)

text \<open>In a tree, nothing can be resolved below a path that does not resolve.\<close>

lemma walk_append_Inl: "walk st cs = Inl e \<Longrightarrow> walk st (cs @ ds) = Inl e"
  by (induction st cs rule: walk.induct) (auto split: option.splits)

lemma tree_missing_child:
  assumes "\<not> is_abs X" and "exists (tree_fs t cwd) p = Inr False"
  shows "exists (tree_fs t cwd) (pjoin p X) = Inr False"
proof -
  from assms(2) obtain e where e: "resolve t cwd p = Inl e" "ignore_error (OSError e)"
    by (auto simp: exists_def tree_fs_def split: sum.splits if_splits node.splits)
  have "walk [t] (((if anchor p = [] then cwd else []) @ parts p) @ path_parts X) = Inl e"
    using e(1) unfolding resolve_def by (rule walk_append_Inl)
  with assms(1) have "resolve t cwd (pjoin p X) = Inl e"
    by (simp add: resolve_def pjoin_def)
  with e(2) show ?thesis
    by (simp add: exists_def tree_fs_def)
qed

text \<open>The loop of \<open>locate_package\<close>: when no test raises, when one does, and a root the test rejects.\<close>

lemma locate_package_loop_ok:
  "\<forall>root \<in> set roots. \<exists>b. exists fs (pjoin (Path root) X) = Inr b \<Longrightarrow>
   locate_package_loop fs roots X acc =
     Inr (acc @ filter (\<lambda>p. exists fs p = Inr True \<and> is_dir fs p = Inr True)
                  (map (\<lambda>root. pjoin (Path root) X) roots))"
proof (induction roots arbitrary: acc)
  case Nil
  then show ?case by simp
next
  case (Cons r roots)
  let ?p = "pjoin (Path r) X"
  from Cons.prems obtain b where b: "exists fs ?p = Inr b" by auto
  from Cons have IH: "\<And>acc. locate_package_loop fs roots X acc =
     Inr (acc @ filter (\<lambda>p. exists fs p = Inr True \<and> is_dir fs p = Inr True)
                  (map (\<lambda>root. pjoin (Path root) X) roots))"
    by simp
  show ?case
  proof (cases b)
    case False
    with b IH show ?thesis by (simp add: Let_def)
  next
    case True
    with b have "exists fs ?p = Inr True" by simp
    then obtain d where d: "is_dir fs ?p = Inr d"
      using exists_True_is_dir by blast
    with True b IH show ?thesis by (cases d) (simp_all add: Let_def)
  qed
qed

lemma locate_package_loop_Inr:
  "locate_package_loop fs roots X acc = Inr ps \<Longrightarrow>
   \<forall>root \<in> set roots. \<exists>b. exists fs (pjoin (Path root) X) = Inr b"
proof (induction roots arbitrary: acc)
  case Nil
  then show ?case by simp
next
  case (Cons r roots)
  then show ?case
    by (auto simp: Let_def split: sum.splits if_splits)
qed

lemma locate_package_loop_raise:
  "\<forall>root \<in> set before. \<exists>b. exists fs (pjoin (Path root) X) = Inr b \<Longrightarrow>
   exists fs (pjoin (Path bad) X) = Inl e \<Longrightarrow>
   locate_package_loop fs (before @ bad # after) X acc = Inl e"
proof (induction before arbitrary: acc)
  case Nil
  then show ?case by (simp add: Let_def)
next
  case (Cons r before)
  let ?p = "pjoin (Path r) X"
  from Cons.prems obtain b where b: "exists fs ?p = Inr b" by auto
  from Cons have IH: "\<And>acc. locate_package_loop fs (before @ bad # after) X acc = Inl e"
    by simp
  show ?case
  proof (cases b)
    case False
    with b IH show ?thesis by (simp add: Let_def)
  next
    case True
    with b have "exists fs ?p = Inr True" by simp
    then obtain d where d: "is_dir fs ?p = Inr d"
      using exists_True_is_dir by blast
    with True b IH show ?thesis by (cases d) (simp_all add: Let_def)
  qed
qed

lemma locate_package_loop_skip:
  "exists fs (pjoin (Path missing) X) = Inr False \<Longrightarrow>
   locate_package_loop fs (before @ missing # after) X acc =
   locate_package_loop fs (before @ after) X acc"
  by (induction before arbitrary: acc) (auto simp: Let_def split: sum.splits)

text \<open>The inner loop of \<open>locate_dist_info_dir\<close>.\<close>

lemma scan_entries_None:
  "scan_entries fs X es = Inr None \<longleftrightarrow> (\<forall>e \<in> set es. entry_matches fs X e = Inr False)"
  by (induction es) (auto split: sum.splits)

lemma scan_entries_first:
  "\<forall>e \<in> set es1. entry_matches fs X e = Inr False \<Longrightarrow> entry_matches fs X hit = Inr True \<Longrightarrow>
     scan_entries fs X (es1 @ hit # es2) = Inr (Some hit)"
  by (induction es1) auto

lemma scan_entries_raise:
  "\<forall>e \<in> set es1. entry_matches fs X e = Inr False \<Longrightarrow> entry_matches fs X bad = Inl x \<Longrightarrow>
     scan_entries fs X (es1 @ bad # es2) = Inl x"
  by (induction es1) auto

lemma scan_entries_Some:
  "scan_entries fs X es = Inr (Some d) \<Longrightarrow> d \<in> set es \<and> entry_matches fs X d = Inr True"
  by (induction es) (auto split: sum.splits if_splits)

text \<open>Roots that are missing, or hold no matching entry, do not change the result.\<close>

lemma locate_skip:
  "\<forall>d \<in> set before.
      exists fs (Path d) = Inr False \<or>
      (exists fs (Path d) = Inr True \<and>
       (\<exists>es. iterdir fs (Path d) = Inr es \<and> (\<forall>e \<in> set es. entry_matches fs X e = Inr False))) \<Longrightarrow>
   locate_dist_info_dir fs (before @ rest) X = locate_dist_info_dir fs rest X"
proof (induction before)
  case Nil
  then show ?case by simp
next
  case (Cons d before)
  then have tail: "locate_dist_info_dir fs (before @ rest) X = locate_dist_info_dir fs rest X"
    by simp
  from Cons.prems have
    "exists fs (Path d) = Inr False \<or>
      (exists fs (Path d) = Inr True \<and>
       (\<exists>es. iterdir fs (Path d) = Inr es \<and> (\<forall>e \<in> set es. entry_matches fs X e = Inr False)))"
    by simp
  then show ?case
  proof
    assume "exists fs (Path d) = Inr False"
    with tail show ?thesis by simp
  next
    assume "exists fs (Path d) = Inr True \<and>
       (\<exists>es. iterdir fs (Path d) = Inr es \<and> (\<forall>e \<in> set es. entry_matches fs X e = Inr False))"
    then obtain es where es: "exists fs (Path d) = Inr True" "iterdir fs (Path d) = Inr es"
        "scan_entries fs X es = Inr None"
      by (auto simp: scan_entries_None)
    with tail show ?thesis by simp
  qed
qed

lemma locate_None_iff:
  "locate_dist_info_dir fs roots X = Inr None \<longleftrightarrow>
   (\<forall>d \<in> set roots.
      exists fs (Path d) = Inr False \<or>
      (exists fs (Path d) = Inr True \<and>
       (\<exists>es. iterdir fs (Path d) = Inr es \<and> (\<forall>e \<in> set es. entry_matches fs X e = Inr False))))"
proof (induction roots)
  case Nil
  then show ?case by simp
next
  case (Cons d roots)
  show ?case
  proof (cases "exists fs (Path d)")
    case (Inl e)
    then show ?thesis by simp
  next
    case (Inr found)
    show ?thesis
    proof (cases found)
      case False
      with Inr Cons show ?thesis by simp
    next
      case True
      show ?thesis
      proof (cases "iterdir fs (Path d)")
        case (Inl e)
        with Inr True show ?thesis by simp
      next
        case listing: (Inr es)
        show ?thesis
        proof (cases "scan_entries fs X es")
          case (Inl e)
          then have "\<not> (\<forall>e \<in> set es. entry_matches fs X e = Inr False)"
            using scan_entries_None [of fs X es] by simp
          with Inl Inr True listing show ?thesis by simp
        next
          case scanned: (Inr r)
          show ?thesis
          proof (cases r)
            case None
            with scanned have "\<forall>e \<in> set es. entry_matches fs X e = Inr False"
              by (simp add: scan_entries_None)
            with None scanned Inr True listing Cons show ?thesis by simp
          next
            case (Some hit)
            with scanned have "\<not> (\<forall>e \<in> set es. entry_matches fs X e = Inr False)"
              using scan_entries_None [of fs X es] by simp
            with Some scanned Inr True listing show ?thesis by simp
          qed
        qed
      qed
    qed
  qed
qed

text \<open>An entry the lookup returns is a child of one of the roots, and matches.\<close>

lemma located_entry:
  "locate_dist_info_dir fs roots X = Inr (Some d) \<Longrightarrow>
     \<exists>root \<in> set roots. \<exists>n.
       d = (Path root)\<lparr>parts := parts (Path root) @ [n]\<rparr> \<and> entry_matches fs X d = Inr True"
proof (induction roots)
  case Nil
  then show ?case by simp
next
  case (Cons r roots)
  show ?case
  proof (cases "locate_dist_info_dir fs roots X = Inr (Some d)")
    case True
    with Cons.IH show ?thesis by auto
  next
    case False
    with Cons.prems obtain es where es: "iterdir fs (Path r) = Inr es"
        "scan_entries fs X es = Inr (Some d)"
      by (auto split: sum.splits if_splits option.splits)
    from es(2) have "d \<in> set es" "entry_matches fs X d = Inr True"
      using scan_entries_Some by blast+
    moreover from es(1) have "\<forall>e \<in> set es. \<exists>n. e = (Path r)\<lparr>parts := parts (Path r) @ [n]\<rparr>"
      by (auto simp: iterdir_def split: sum.splits)
    ultimately show ?thesis by auto
  qed
qed

lemma parent_child: "parent (p\<lparr>parts := parts p @ [n]\<rparr>) = p"
  by (simp add: parent_def)

text \<open>Text without a carriage return is read as it is.\<close>

lemma universal_newlines_id: "CHR 0x0D \<notin> set s \<Longrightarrow> universal_newlines s = s"
  by (induction s rule: universal_newlines.induct) auto

text \<open>
  Where the test for a versioned name can be met although the name has no
  version part: the required prefix and the required suffix overlap.
\<close>

lemma dist_prefix:
  assumes "us @ t = ''.dist-info''" and "us \<noteq> []" and "last us = CHR ''-''"
  shows "us = ''.dist-''"
  using assms by (auto simp: append_eq_Cons_conv)

lemma egg_prefix:
  assumes "us @ t = ''.egg-info''" and "us \<noteq> []" and "last us = CHR ''-''"
  shows "us = ''.egg-''"
  using assms by (auto simp: append_eq_Cons_conv)

lemma versioned_form:
  assumes pre: "nm = X @ ''-'' @ t" and suf: "nm = u @ sfx"
    and ov: "\<And>us t'. us @ t' = sfx \<Longrightarrow> us \<noteq> [] \<Longrightarrow> last us = CHR ''-'' \<Longrightarrow> us = stem @ ''-''"
    and X: "\<not> endswith X stem"
  shows "\<exists>v. nm = X @ ''-'' @ v @ sfx"
proof -
  from pre suf have "(X @ ''-'') @ t = u @ sfx" by simp
  then obtain us where
    "(X @ ''-'' = u @ us \<and> us @ t = sfx) \<or> ((X @ ''-'') @ us = u \<and> t = us @ sfx)"
    unfolding append_eq_append_conv2 by blast
  then show ?thesis
  proof
    assume a: "X @ ''-'' = u @ us \<and> us @ t = sfx"
    show ?thesis
    proof (cases "us = []")
      case True
      with a pre show ?thesis by simp
    next
      case False
      from a have "last (X @ ''-'') = last (u @ us)" by simp
      with False have "last us = CHR ''-''" by simp
      with a False ov have "us = stem @ ''-''" by blast
      with a have "X @ ''-'' = (u @ stem) @ ''-''" by simp
      then have "X = u @ stem" by (simp only: append_same_eq)
      with X show ?thesis by (simp add: endswith_iff)
    qed
  next
    assume "(X @ ''-'') @ us = u \<and> t = us @ sfx"
    with pre show ?thesis by simp
  qed
qed

text \<open>The two loops of \<open>find_spec\<close> in closed form.\<close>

lemma find_spec_paths_None:
  "find_spec_paths pf fullname ps = None \<Longrightarrow>
     filter (\<lambda>r. r \<noteq> None) (map (\<lambda>p. pf fullname [str_path (parent p)]) ps) = []"
  by (induction ps) (auto split: option.splits)

lemma find_spec_paths_Some:
  "find_spec_paths pf fullname ps = Some spec \<Longrightarrow>
     \<exists>rs. filter (\<lambda>r. r \<noteq> None) (map (\<lambda>p. pf fullname [str_path (parent p)]) ps) = Some spec # rs"
  by (induction ps) (auto split: option.splits)

lemma find_spec_items_filter:
  "find_spec_items pf fullname items =
     (case filter (\<lambda>r. r \<noteq> None)
             (map (\<lambda>p. pf fullname [str_path (parent p)])
                (concat (map snd
                   (filter (\<lambda>item. fullname = fst item \<or> startswith fullname (fst item @ ''.''))
                      items)))) of
        [] \<Rightarrow> None | r # rs \<Rightarrow> r)"
proof (induction items)
  case Nil
  then show ?case by simp
next
  case (Cons item items)
  obtain pkg pkg_paths where item: "item = (pkg, pkg_paths)" by (cases item)
  show ?case
  proof (cases "fullname = pkg \<or> startswith fullname (pkg @ ''.'')")
    case False
    with Cons item show ?thesis by simp
  next
    case True
    show ?thesis
    proof (cases "find_spec_paths pf fullname pkg_paths")
      case None
      from find_spec_paths_None [OF None] None True Cons item show ?thesis by simp
    next
      case (Some spec)
      from find_spec_paths_Some [OF Some] obtain rs where
        "filter (\<lambda>r. r \<noteq> None) (map (\<lambda>p. pf fullname [str_path (parent p)]) pkg_paths) = Some spec # rs"
        by blast
      with Some True item show ?thesis by simp
    qed
  qed
qed

lemma find_spec_items_intercept:
  "find_spec_items pf fullname items \<noteq> None \<Longrightarrow>
     \<exists>pkg \<in> set (map fst items). fullname = pkg \<or> startswith fullname (pkg @ ''.'')"
  by (induction items) (auto split: if_splits option.splits)

section \<open>Package lookup\<close>

text \<open>
  C5, as stated, fails in its last part, that the function never raises:
  \<^verbatim>\<open>path.exists()\<close> raises every error of the operating system that does not
  mean the path is missing. Under the existing root \<^verbatim>\<open>/d\<close> a package name of
  256 characters raises \<^verbatim>\<open>OSError\<close> (name too long), and a root below a
  directory that cannot be searched raises \<^verbatim>\<open>PermissionError\<close>.
\<close>

theorem locate_package_raises:
  "exists file_root_fs (Path ''/d'') = Inr True
   \<and> locate_package file_root_fs [''/d''] (replicate 256 CHR ''a'') = Inl (OSError ENAMETOOLONG)
   \<and> locate_package file_root_fs [''/locked/site''] ''PySide6'' = Inl PermissionError"
  by code_simp

text \<open>
  C5, amended. For every package name \<open>X\<close> and whatever the operating system
  answers, \<open>locate_package\<close> returns a list exactly when no existence test on a
  path \<open>root/X\<close> raises, and the list is then the paths \<open>root/X\<close> that exist
  and are directories, one per root of \<open>PACKAGE_DIR\<close> and in the order of the
  roots: its elements are exactly those paths and nothing is deduplicated (its
  length is the number of roots that pass). A root whose \<open>root/X\<close> does not
  exist contributes nothing: removing it from the list leaves the result
  unchanged; in a tree, \<open>root/X\<close> does not exist when the root does not and
  \<open>X\<close> is relative. When no root passes, the result is the empty list. The
  first existence test that raises ends the function with that exception.
\<close>

theorem locate_package_spec:
  "(locate_package fs PACKAGE_DIR X = Inr ps \<longleftrightarrow>
      (\<forall>root \<in> set PACKAGE_DIR. \<exists>b. exists fs (pjoin (Path root) X) = Inr b) \<and>
      ps = filter (\<lambda>p. exists fs p = Inr True \<and> is_dir fs p = Inr True)
             (map (\<lambda>root. pjoin (Path root) X) PACKAGE_DIR))
   \<and> (locate_package fs PACKAGE_DIR X = Inr ps \<longrightarrow>
        set ps = {pjoin (Path root) X | root.
                    root \<in> set PACKAGE_DIR \<and> exists fs (pjoin (Path root) X) = Inr True \<and>
                    is_dir fs (pjoin (Path root) X) = Inr True}
        \<and> length ps =
            length (filter (\<lambda>root. exists fs (pjoin (Path root) X) = Inr True \<and>
                                   is_dir fs (pjoin (Path root) X) = Inr True) PACKAGE_DIR))
   \<and> (exists fs (pjoin (Path missing) X) = Inr False \<longrightarrow>
        locate_package fs (before @ missing # after) X = locate_package fs (before @ after) X)
   \<and> (\<not> is_abs X \<and> exists (tree_fs t cwd) (Path missing) = Inr False \<longrightarrow>
        exists (tree_fs t cwd) (pjoin (Path missing) X) = Inr False)
   \<and> ((\<forall>root \<in> set PACKAGE_DIR.
          exists fs (pjoin (Path root) X) = Inr False \<or>
          is_dir fs (pjoin (Path root) X) = Inr False) \<longrightarrow>
        locate_package fs PACKAGE_DIR X = Inr [])
   \<and> ((\<forall>root \<in> set before. \<exists>b. exists fs (pjoin (Path root) X) = Inr b) \<and>
        exists fs (pjoin (Path bad) X) = Inl e \<longrightarrow>
        locate_package fs (before @ bad # after) X = Inl e)"
proof -
  let ?ok = "\<forall>root \<in> set PACKAGE_DIR. \<exists>b. exists fs (pjoin (Path root) X) = Inr b"
  let ?sel = "filter (\<lambda>p. exists fs p = Inr True \<and> is_dir fs p = Inr True)
             (map (\<lambda>root. pjoin (Path root) X) PACKAGE_DIR)"
  have ok: "locate_package fs PACKAGE_DIR X = Inr ?sel" if ?ok
    using locate_package_loop_ok [OF that, of "[]"] by (simp add: locate_package_def)
  have c1: "locate_package fs PACKAGE_DIR X = Inr ps \<longleftrightarrow> ?ok \<and> ps = ?sel"
  proof
    assume r: "locate_package fs PACKAGE_DIR X = Inr ps"
    then have ?ok
      unfolding locate_package_def by (rule locate_package_loop_Inr)
    with ok r show "?ok \<and> ps = ?sel" by simp
  next
    assume "?ok \<and> ps = ?sel"
    with ok show "locate_package fs PACKAGE_DIR X = Inr ps" by simp
  qed
  have c2: "locate_package fs PACKAGE_DIR X = Inr ps \<longrightarrow>
        set ps = {pjoin (Path root) X | root.
                    root \<in> set PACKAGE_DIR \<and> exists fs (pjoin (Path root) X) = Inr True \<and>
                    is_dir fs (pjoin (Path root) X) = Inr True}
        \<and> length ps =
            length (filter (\<lambda>root. exists fs (pjoin (Path root) X) = Inr True \<and>
                                   is_dir fs (pjoin (Path root) X) = Inr True) PACKAGE_DIR)"
  proof
    assume "locate_package fs PACKAGE_DIR X = Inr ps"
    with c1 have ps: "ps = ?sel" by simp
    have "set ?sel = {pjoin (Path root) X | root.
                    root \<in> set PACKAGE_DIR \<and> exists fs (pjoin (Path root) X) = Inr True \<and>
                    is_dir fs (pjoin (Path root) X) = Inr True}"
      by auto
    moreover have "length ?sel =
            length (filter (\<lambda>root. exists fs (pjoin (Path root) X) = Inr True \<and>
                                   is_dir fs (pjoin (Path root) X) = Inr True) PACKAGE_DIR)"
      by (simp add: filter_map comp_def)
    ultimately show "set ps = {pjoin (Path root) X | root.
                    root \<in> set PACKAGE_DIR \<and> exists fs (pjoin (Path root) X) = Inr True \<and>
                    is_dir fs (pjoin (Path root) X) = Inr True}
        \<and> length ps =
            length (filter (\<lambda>root. exists fs (pjoin (Path root) X) = Inr True \<and>
                                   is_dir fs (pjoin (Path root) X) = Inr True) PACKAGE_DIR)"
      unfolding ps by (rule conjI)
  qed
  have c3: "exists fs (pjoin (Path missing) X) = Inr False \<longrightarrow>
        locate_package fs (before @ missing # after) X = locate_package fs (before @ after) X"
    by (simp add: locate_package_def locate_package_loop_skip)
  have c4: "\<not> is_abs X \<and> exists (tree_fs t cwd) (Path missing) = Inr False \<longrightarrow>
        exists (tree_fs t cwd) (pjoin (Path missing) X) = Inr False"
    by (simp add: tree_missing_child)
  have c5: "(\<forall>root \<in> set PACKAGE_DIR.
          exists fs (pjoin (Path root) X) = Inr False \<or>
          is_dir fs (pjoin (Path root) X) = Inr False) \<longrightarrow>
        locate_package fs PACKAGE_DIR X = Inr []"
  proof
    assume none: "\<forall>root \<in> set PACKAGE_DIR.
          exists fs (pjoin (Path root) X) = Inr False \<or>
          is_dir fs (pjoin (Path root) X) = Inr False"
    have "\<exists>b. exists fs (pjoin (Path root) X) = Inr b" if "root \<in> set PACKAGE_DIR" for root
    proof (cases "exists fs (pjoin (Path root) X)")
      case (Inl e)
      then have "is_dir fs (pjoin (Path root) X) = Inl e"
        by (simp add: exists_raises_iff)
      with Inl none that show ?thesis by auto
    next
      case (Inr b)
      then show ?thesis by simp
    qed
    then have ?ok by blast
    moreover from none have "?sel = []"
      by (auto simp: filter_empty_conv)
    ultimately show "locate_package fs PACKAGE_DIR X = Inr []"
      using ok by simp
  qed
  have c6: "(\<forall>root \<in> set before. \<exists>b. exists fs (pjoin (Path root) X) = Inr b) \<and>
        exists fs (pjoin (Path bad) X) = Inl e \<longrightarrow>
        locate_package fs (before @ bad # after) X = Inl e"
    by (simp add: locate_package_def locate_package_loop_raise)
  from c1 c2 c3 c4 c5 c6 show ?thesis by (intro conjI)
qed

theorem locate_package_spec_witness:
  "locate_package fedora_fs [''/opt/none'', ''/usr/lib/python3.12/site-packages/''] ''PySide6'' =
     locate_package fedora_fs [''/usr/lib/python3.12/site-packages/''] ''PySide6''
   \<and> locate_package fedora_fs [''/usr/lib/python3.12/site-packages/''] ''PySide6'' =
       Inr [Path ''/usr/lib/python3.12/site-packages/PySide6'']
   \<and> exists fedora_fs (pjoin (Path ''/opt/none'') ''PySide6'') = Inr False
   \<and> locate_package fedora_fs [''/usr/lib/python3/dist-packages/''] ''shiboken6'' = Inr []
   \<and> locate_package file_root_fs [''/d'', ''/locked/site''] ''PySide6'' = Inl PermissionError"
proof -
  let ?root = "''/usr/lib/python3.12/site-packages/''"
  let ?tree = "Dir [(''usr'', Dir
        [(''lib'', Dir [(''python3.12'', Dir [(''site-packages'', Dir
           [(''PySide6'', Dir [(''QtCore.abi3.so'', File [])])])])]),
         (''lib64'', Dir [(''python3.12'', Dir [(''site-packages'', Dir
           [(''README'', File ''x''),
            (''PySide6-6.7.0.dist-info'', Dir
               [(''METADATA'', File ''Name: PySide6''),
                (''WHEEL'', File (''Tag: a'' @ [CHR 0x0D, CHR 0x0A] @ ''Tag: b'')),
                (''LICENSE'', File [CHR 0xE9])])])])])])]"
  have rel: "\<not> is_abs ''PySide6'' \<and> exists (tree_fs ?tree []) (Path ''/opt/none'') = Inr False"
    by (simp add: fs_eval)
  have "exists (tree_fs ?tree []) (pjoin (Path ''/opt/none'') ''PySide6'') = Inr False"
    using rel
    by (rule locate_package_spec [where t = ?tree and cwd = "[]" and X = "''PySide6''"
          and missing = "''/opt/none''",
          THEN conjunct2, THEN conjunct2, THEN conjunct2, THEN conjunct1, THEN mp])
  then have gone: "exists fedora_fs (pjoin (Path ''/opt/none'') ''PySide6'') = Inr False"
    by (simp only: fedora_fs_def)
  have skip: "locate_package fedora_fs ([] @ ''/opt/none'' # [?root]) ''PySide6'' =
      locate_package fedora_fs ([] @ [?root]) ''PySide6''"
    using gone
    by (rule locate_package_spec [where fs = fedora_fs and X = "''PySide6''"
          and missing = "''/opt/none''" and before = "[]" and after = "[?root]",
          THEN conjunct2, THEN conjunct2, THEN conjunct1, THEN mp])
  have ok: "(\<forall>root \<in> set [?root]. \<exists>b. exists fedora_fs (pjoin (Path root) ''PySide6'') = Inr b) \<and>
      [Path ''/usr/lib/python3.12/site-packages/PySide6''] =
        filter (\<lambda>p. exists fedora_fs p = Inr True \<and> is_dir fedora_fs p = Inr True)
          (map (\<lambda>root. pjoin (Path root) ''PySide6'') [?root])"
    by (auto simp: fs_eval fedora_fs_def)
  have found: "locate_package fedora_fs [?root] ''PySide6'' =
       Inr [Path ''/usr/lib/python3.12/site-packages/PySide6'']"
    using ok
    by (rule locate_package_spec [where fs = fedora_fs and X = "''PySide6''"
          and PACKAGE_DIR = "[?root]"
          and ps = "[Path ''/usr/lib/python3.12/site-packages/PySide6'']",
          THEN conjunct1, THEN iffD2])
  have none: "\<forall>root \<in> set [''/usr/lib/python3/dist-packages/''].
      exists fedora_fs (pjoin (Path root) ''shiboken6'') = Inr False \<or>
      is_dir fedora_fs (pjoin (Path root) ''shiboken6'') = Inr False"
    by (simp add: fs_eval fedora_fs_def)
  have empty: "locate_package fedora_fs [''/usr/lib/python3/dist-packages/''] ''shiboken6'' = Inr []"
    using none
    by (rule locate_package_spec [where fs = fedora_fs and X = "''shiboken6''"
          and PACKAGE_DIR = "[''/usr/lib/python3/dist-packages/'']",
          THEN conjunct2, THEN conjunct2, THEN conjunct2, THEN conjunct2, THEN conjunct1, THEN mp])
  have bad: "(\<forall>root \<in> set [''/d''].
        \<exists>b. exists file_root_fs (pjoin (Path root) ''PySide6'') = Inr b) \<and>
      exists file_root_fs (pjoin (Path ''/locked/site'') ''PySide6'') = Inl PermissionError"
    by (auto simp: fs_eval file_root_fs_def)
  have raised: "locate_package file_root_fs ([''/d''] @ ''/locked/site'' # []) ''PySide6'' =
      Inl PermissionError"
    using bad
    by (rule locate_package_spec [where fs = file_root_fs and X = "''PySide6''"
          and before = "[''/d'']" and bad = "''/locked/site''" and after = "[]"
          and e = PermissionError,
          THEN conjunct2, THEN conjunct2, THEN conjunct2, THEN conjunct2, THEN conjunct2, THEN mp])
  show ?thesis
    using skip found gone empty raised by simp
qed

text \<open>
  C6. With an empty list of roots both lookups fail closed, whatever the name
  and the file system: \<open>locate_package\<close> returns the empty list and
  \<open>locate_dist_info_dir\<close> returns \<^verbatim>\<open>None\<close>, not an exception.
\<close>

theorem empty_roots_fail_closed:
  "locate_package fs [] X = Inr [] \<and> locate_dist_info_dir fs [] X = Inr None"
  by (simp add: locate_package_def)

theorem empty_roots_fail_closed_witness:
  "locate_package fedora_fs [] ''PySide6'' = Inr []
   \<and> locate_dist_info_dir fedora_fs [] ''PySide6'' = Inr None"
  by (rule empty_roots_fail_closed)

section \<open>Metadata lookup\<close>

text \<open>
  C4, as stated, fails where a metadata root exists but cannot be listed: no
  child of it matches, and the listing raises instead of the function
  returning \<^verbatim>\<open>None\<close>. A root that is a regular file raises
  \<^verbatim>\<open>NotADirectoryError\<close>, a directory without read permission raises
  \<^verbatim>\<open>PermissionError\<close>.
\<close>

theorem locate_dist_info_dir_file_root:
  "exists file_root_fs (Path ''/r'') = Inr True
   \<and> os_listdir file_root_fs (Path ''/r'') = Inl NotADirectoryError
   \<and> locate_dist_info_dir file_root_fs [''/r''] ''X'' = Inl NotADirectoryError
   \<and> is_dir file_root_fs (Path ''/locked'') = Inr True
   \<and> locate_dist_info_dir file_root_fs [''/locked''] ''X'' = Inl PermissionError"
  by (simp add: fs_eval file_root_fs_def)

text \<open>
  C4, amended. Whatever the operating system answers, \<open>locate_dist_info_dir\<close>
  scans the roots in order and the children of each root in listing order.
  Call a root passed when \<^verbatim>\<open>exists()\<close> answers \<^verbatim>\<open>False\<close> for it, or it is
  listed without error and the test answers \<^verbatim>\<open>False\<close> for each of its children.
  When every root before \<open>root\<close> is passed: if the listing of \<open>root\<close> holds the
  matching entry \<open>hit\<close> after entries that do not match, the result is \<open>hit\<close>,
  whatever entries follow it and whatever roots follow \<open>root\<close> (nothing after
  the hit is looked at); and if \<^verbatim>\<open>exists()\<close> on \<open>root\<close>, its listing, or the
  \<^verbatim>\<open>is_dir()\<close> test on an entry reached before any match raises, that exception
  leaves the function. The result is \<^verbatim>\<open>None\<close> exactly when every root is
  passed.
\<close>

theorem locate_dist_info_dir_first_match:
  "((\<forall>d \<in> set before.
        exists fs (Path d) = Inr False \<or>
        (exists fs (Path d) = Inr True \<and>
         (\<exists>es. iterdir fs (Path d) = Inr es \<and>
               (\<forall>e \<in> set es. entry_matches fs X e = Inr False)))) \<longrightarrow>
      (exists fs (Path root) = Inr True \<and> iterdir fs (Path root) = Inr (es1 @ hit # es2) \<and>
       (\<forall>e \<in> set es1. entry_matches fs X e = Inr False) \<and> entry_matches fs X hit = Inr True
       \<longrightarrow> locate_dist_info_dir fs (before @ root # after) X = Inr (Some hit))
      \<and> (exists fs (Path root) = Inl err
         \<longrightarrow> locate_dist_info_dir fs (before @ root # after) X = Inl err)
      \<and> (exists fs (Path root) = Inr True \<and> iterdir fs (Path root) = Inl err
         \<longrightarrow> locate_dist_info_dir fs (before @ root # after) X = Inl err)
      \<and> (exists fs (Path root) = Inr True \<and> iterdir fs (Path root) = Inr (es1 @ hit # es2) \<and>
         (\<forall>e \<in> set es1. entry_matches fs X e = Inr False) \<and> entry_matches fs X hit = Inl err
         \<longrightarrow> locate_dist_info_dir fs (before @ root # after) X = Inl err))
   \<and> (locate_dist_info_dir fs roots X = Inr None \<longleftrightarrow>
        (\<forall>d \<in> set roots.
           exists fs (Path d) = Inr False \<or>
           (exists fs (Path d) = Inr True \<and>
            (\<exists>es. iterdir fs (Path d) = Inr es \<and>
                  (\<forall>e \<in> set es. entry_matches fs X e = Inr False)))))"
proof (intro conjI impI)
  assume before: "\<forall>d \<in> set before.
        exists fs (Path d) = Inr False \<or>
        (exists fs (Path d) = Inr True \<and>
         (\<exists>es. iterdir fs (Path d) = Inr es \<and>
               (\<forall>e \<in> set es. entry_matches fs X e = Inr False)))"
  have skip: "locate_dist_info_dir fs (before @ root # after) X =
             locate_dist_info_dir fs (root # after) X"
    using before by (rule locate_skip)
  {
    assume h: "exists fs (Path root) = Inr True \<and> iterdir fs (Path root) = Inr (es1 @ hit # es2) \<and>
       (\<forall>e \<in> set es1. entry_matches fs X e = Inr False) \<and> entry_matches fs X hit = Inr True"
    then have "scan_entries fs X (es1 @ hit # es2) = Inr (Some hit)"
      by (simp add: scan_entries_first)
    with h show "locate_dist_info_dir fs (before @ root # after) X = Inr (Some hit)"
      unfolding skip by simp
  }
  {
    assume "exists fs (Path root) = Inl err"
    then show "locate_dist_info_dir fs (before @ root # after) X = Inl err"
      unfolding skip by simp
  }
  {
    assume "exists fs (Path root) = Inr True \<and> iterdir fs (Path root) = Inl err"
    then show "locate_dist_info_dir fs (before @ root # after) X = Inl err"
      unfolding skip by simp
  }
  {
    assume h: "exists fs (Path root) = Inr True \<and> iterdir fs (Path root) = Inr (es1 @ hit # es2) \<and>
         (\<forall>e \<in> set es1. entry_matches fs X e = Inr False) \<and> entry_matches fs X hit = Inl err"
    then have "scan_entries fs X (es1 @ hit # es2) = Inl err"
      by (simp add: scan_entries_raise)
    with h show "locate_dist_info_dir fs (before @ root # after) X = Inl err"
      unfolding skip by simp
  }
next
  show "locate_dist_info_dir fs roots X = Inr None \<longleftrightarrow>
        (\<forall>d \<in> set roots.
           exists fs (Path d) = Inr False \<or>
           (exists fs (Path d) = Inr True \<and>
            (\<exists>es. iterdir fs (Path d) = Inr es \<and>
                  (\<forall>e \<in> set es. entry_matches fs X e = Inr False))))"
    by (rule locate_None_iff)
qed

theorem locate_dist_info_dir_first_match_witness:
  "locate_dist_info_dir two_fs [''/zz'', ''/m'', ''/f'', ''/n''] ''X'' =
     Inr (Some (Path ''/m/X-2.1.egg-info''))
   \<and> locate_dist_info_dir two_fs [''/zz'', ''/n''] ''Y'' = Inr None
   \<and> locate_dist_info_dir file_root_fs [''/d'', ''/locked/x'', ''/d''] ''X'' = Inl PermissionError
   \<and> locate_dist_info_dir file_root_fs [''/d'', ''/r'', ''/d''] ''X'' = Inl NotADirectoryError
   \<and> locate_dist_info_dir listed_only_fs [''/m''] ''X'' = Inl PermissionError"
proof -
  have before: "\<forall>d \<in> set [''/zz''].
      exists two_fs (Path d) = Inr False \<or>
      (exists two_fs (Path d) = Inr True \<and>
       (\<exists>es. iterdir two_fs (Path d) = Inr es \<and>
             (\<forall>e \<in> set es. entry_matches two_fs ''X'' e = Inr False)))"
    by (simp add: fs_eval two_fs_def)
  have hit: "exists two_fs (Path ''/m'') = Inr True \<and>
      iterdir two_fs (Path ''/m'') =
        Inr ([Path ''/m/Xtra.dist-info'', Path ''/m/X-2.1.dist-info'']
             @ Path ''/m/X-2.1.egg-info'' # [Path ''/m/X.dist-info'']) \<and>
      (\<forall>e \<in> set [Path ''/m/Xtra.dist-info'', Path ''/m/X-2.1.dist-info''].
         entry_matches two_fs ''X'' e = Inr False) \<and>
      entry_matches two_fs ''X'' (Path ''/m/X-2.1.egg-info'') = Inr True"
    by (simp add: fs_eval two_fs_def)
  have first: "locate_dist_info_dir two_fs ([''/zz''] @ ''/m'' # [''/f'', ''/n'']) ''X'' =
     Inr (Some (Path ''/m/X-2.1.egg-info''))"
    using hit
    by (rule locate_dist_info_dir_first_match [where fs = two_fs and X = "''X''"
          and before = "[''/zz'']" and root = "''/m''" and after = "[''/f'', ''/n'']"
          and ?es1.0 = "[Path ''/m/Xtra.dist-info'', Path ''/m/X-2.1.dist-info'']"
          and hit = "Path ''/m/X-2.1.egg-info''"
          and ?es2.0 = "[Path ''/m/X.dist-info'']",
          THEN conjunct1, THEN mp, OF before, THEN conjunct1, THEN mp])
  have barren: "\<forall>d \<in> set [''/zz'', ''/n''].
      exists two_fs (Path d) = Inr False \<or>
      (exists two_fs (Path d) = Inr True \<and>
       (\<exists>es. iterdir two_fs (Path d) = Inr es \<and>
             (\<forall>e \<in> set es. entry_matches two_fs ''Y'' e = Inr False)))"
    by (simp add: fs_eval two_fs_def)
  have none: "locate_dist_info_dir two_fs [''/zz'', ''/n''] ''Y'' = Inr None"
    using barren
    by (rule locate_dist_info_dir_first_match [where fs = two_fs and X = "''Y''"
          and roots = "[''/zz'', ''/n'']", THEN conjunct2, THEN iffD2])
  have empty: "\<forall>d \<in> set [''/d''].
      exists file_root_fs (Path d) = Inr False \<or>
      (exists file_root_fs (Path d) = Inr True \<and>
       (\<exists>es. iterdir file_root_fs (Path d) = Inr es \<and>
             (\<forall>e \<in> set es. entry_matches file_root_fs ''X'' e = Inr False)))"
    by (simp add: fs_eval file_root_fs_def)
  have denied: "exists file_root_fs (Path ''/locked/x'') = Inl PermissionError"
    by (simp add: fs_eval file_root_fs_def)
  have r1: "locate_dist_info_dir file_root_fs ([''/d''] @ ''/locked/x'' # [''/d'']) ''X'' =
      Inl PermissionError"
    using denied
    by (rule locate_dist_info_dir_first_match [where fs = file_root_fs and X = "''X''"
          and before = "[''/d'']" and root = "''/locked/x''" and after = "[''/d'']"
          and err = PermissionError,
          THEN conjunct1, THEN mp, OF empty, THEN conjunct2, THEN conjunct1, THEN mp])
  have notdir: "exists file_root_fs (Path ''/r'') = Inr True \<and>
      iterdir file_root_fs (Path ''/r'') = Inl NotADirectoryError"
    by (simp add: fs_eval file_root_fs_def)
  have r2: "locate_dist_info_dir file_root_fs ([''/d''] @ ''/r'' # [''/d'']) ''X'' =
      Inl NotADirectoryError"
    using notdir
    by (rule locate_dist_info_dir_first_match [where fs = file_root_fs and X = "''X''"
          and before = "[''/d'']" and root = "''/r''" and after = "[''/d'']"
          and err = NotADirectoryError,
          THEN conjunct1, THEN mp, OF empty, THEN conjunct2, THEN conjunct2, THEN conjunct1,
          THEN mp])
  have no_roots: "\<forall>d \<in> set ([] :: string list).
      exists listed_only_fs (Path d) = Inr False \<or>
      (exists listed_only_fs (Path d) = Inr True \<and>
       (\<exists>es. iterdir listed_only_fs (Path d) = Inr es \<and>
             (\<forall>e \<in> set es. entry_matches listed_only_fs ''X'' e = Inr False)))"
    by simp
  have child: "exists listed_only_fs (Path ''/m'') = Inr True \<and>
      iterdir listed_only_fs (Path ''/m'') = Inr ([] @ Path ''/m/X.dist-info'' # []) \<and>
      (\<forall>e \<in> set []. entry_matches listed_only_fs ''X'' e = Inr False) \<and>
      entry_matches listed_only_fs ''X'' (Path ''/m/X.dist-info'') = Inl PermissionError"
    by (simp add: fs_eval listed_only_fs_def)
  have r3: "locate_dist_info_dir listed_only_fs ([] @ ''/m'' # []) ''X'' = Inl PermissionError"
    using no_roots child
    by (rule locate_dist_info_dir_first_match [where fs = listed_only_fs and X = "''X''"
          and before = "[]" and root = "''/m''" and after = "[]"
          and ?es1.0 = "[]" and hit = "Path ''/m/X.dist-info''" and ?es2.0 = "[]"
          and err = PermissionError,
          THEN conjunct1, THEN mp, THEN conjunct2, THEN conjunct2, THEN conjunct2, THEN mp])
  show ?thesis
    using first none r1 r2 r3 by simp
qed

text \<open>
  C3. The claim: an entry matches exactly when it is a directory named
  \<open>X.dist-info\<close>, \<open>X.egg-info\<close>, \<open>X-v.dist-info\<close> or \<open>X-v.egg-info\<close> for some
  \<open>v\<close>. The test of the source asks for the prefix \<open>X-\<close> and for the suffix
  separately, and the two may overlap: for the package name \<^verbatim>\<open>a.dist\<close> the
  directory \<^verbatim>\<open>a.dist-info\<close>, the metadata of a package named \<^verbatim>\<open>a\<close>, passes
  the test and is returned, although its name has none of the four forms.
\<close>

theorem entry_matches_overlap:
  "entry_matches overlap_fs ''a.dist'' (Path ''/m/a.dist-info'') = Inr True
   \<and> locate_dist_info_dir overlap_fs [''/m''] ''a.dist'' = Inr (Some (Path ''/m/a.dist-info''))
   \<and> name (Path ''/m/a.dist-info'') = ''a.dist-info''
   \<and> ''a.dist-info'' \<noteq> ''a.dist'' @ ''.dist-info''
   \<and> ''a.dist-info'' \<noteq> ''a.dist'' @ ''.egg-info''
   \<and> (\<nexists>v. ''a.dist-info'' = ''a.dist'' @ ''-'' @ v @ ''.dist-info'')
   \<and> (\<nexists>v. ''a.dist-info'' = ''a.dist'' @ ''-'' @ v @ ''.egg-info'')"
  by (simp add: fs_eval overlap_fs_def)

text \<open>
  Away from that overlap the four forms are exact: for a package name \<open>X\<close>
  that ends neither in \<^verbatim>\<open>.dist\<close> nor in \<^verbatim>\<open>.egg\<close>, an entry matches exactly
  when it is a directory whose name has one of the four forms. For every \<open>X\<close>,
  a directory named \<open>X.dist-info\<close>, \<open>X.egg-info\<close>, \<open>X-2.1.dist-info\<close> or
  \<open>X-2.1.egg-info\<close> matches, and an entry named \<open>Xtra.dist-info\<close> does not.
\<close>

theorem entry_matches_four_forms:
  "(\<not> endswith X ''.dist'' \<and> \<not> endswith X ''.egg'' \<longrightarrow>
      (entry_matches fs X entry = Inr True \<longleftrightarrow>
         is_dir fs entry = Inr True \<and>
         (name entry = X @ ''.dist-info'' \<or> name entry = X @ ''.egg-info'' \<or>
          (\<exists>v. name entry = X @ ''-'' @ v @ ''.dist-info'') \<or>
          (\<exists>v. name entry = X @ ''-'' @ v @ ''.egg-info''))))
   \<and> (is_dir fs entry = Inr True \<and>
        (name entry = X @ ''.dist-info'' \<or> name entry = X @ ''.egg-info'' \<or>
         name entry = X @ ''-2.1.dist-info'' \<or> name entry = X @ ''-2.1.egg-info'') \<longrightarrow>
        entry_matches fs X entry = Inr True)
   \<and> (name entry = X @ ''tra.dist-info'' \<longrightarrow> entry_matches fs X entry \<noteq> Inr True)"
proof (intro conjI impI)
  assume X: "\<not> endswith X ''.dist'' \<and> \<not> endswith X ''.egg''"
  show "entry_matches fs X entry = Inr True \<longleftrightarrow>
         is_dir fs entry = Inr True \<and>
         (name entry = X @ ''.dist-info'' \<or> name entry = X @ ''.egg-info'' \<or>
          (\<exists>v. name entry = X @ ''-'' @ v @ ''.dist-info'') \<or>
          (\<exists>v. name entry = X @ ''-'' @ v @ ''.egg-info''))"
  proof
    assume m: "entry_matches fs X entry = Inr True"
    then have d: "is_dir fs entry = Inr True"
      by (auto simp: entry_matches_def split: sum.splits)
    from m consider
        (dist) t u where "name entry = X @ ''-'' @ t" "name entry = u @ ''.dist-info''"
      | (egg) t u where "name entry = X @ ''-'' @ t" "name entry = u @ ''.egg-info''"
      | (exact) "name entry = X @ ''.dist-info'' \<or> name entry = X @ ''.egg-info''"
      by (auto simp: entry_matches_def startswith_iff endswith_iff split: sum.splits)
    then show "is_dir fs entry = Inr True \<and>
         (name entry = X @ ''.dist-info'' \<or> name entry = X @ ''.egg-info'' \<or>
          (\<exists>v. name entry = X @ ''-'' @ v @ ''.dist-info'') \<or>
          (\<exists>v. name entry = X @ ''-'' @ v @ ''.egg-info''))"
    proof cases
      case dist
      have "\<exists>v. name entry = X @ ''-'' @ v @ ''.dist-info''"
      proof (rule versioned_form [where stem = "''.dist''"])
        show "name entry = X @ ''-'' @ t" by (rule dist(1))
        show "name entry = u @ ''.dist-info''" by (rule dist(2))
        show "us = ''.dist'' @ ''-''"
          if "us @ t' = ''.dist-info''" "us \<noteq> []" "last us = CHR ''-''" for us t'
          using dist_prefix [OF that] by simp
        show "\<not> endswith X ''.dist''" using X by simp
      qed
      with d show ?thesis by blast
    next
      case egg
      have "\<exists>v. name entry = X @ ''-'' @ v @ ''.egg-info''"
      proof (rule versioned_form [where stem = "''.egg''"])
        show "name entry = X @ ''-'' @ t" by (rule egg(1))
        show "name entry = u @ ''.egg-info''" by (rule egg(2))
        show "us = ''.egg'' @ ''-''"
          if "us @ t' = ''.egg-info''" "us \<noteq> []" "last us = CHR ''-''" for us t'
          using egg_prefix [OF that] by simp
        show "\<not> endswith X ''.egg''" using X by simp
      qed
      with d show ?thesis by blast
    next
      case exact
      with d show ?thesis by blast
    qed
  next
    assume "is_dir fs entry = Inr True \<and>
         (name entry = X @ ''.dist-info'' \<or> name entry = X @ ''.egg-info'' \<or>
          (\<exists>v. name entry = X @ ''-'' @ v @ ''.dist-info'') \<or>
          (\<exists>v. name entry = X @ ''-'' @ v @ ''.egg-info''))"
    then show "entry_matches fs X entry = Inr True"
      by (auto simp: entry_matches_def startswith_iff endswith_iff)
  qed
next
  assume "is_dir fs entry = Inr True \<and>
        (name entry = X @ ''.dist-info'' \<or> name entry = X @ ''.egg-info'' \<or>
         name entry = X @ ''-2.1.dist-info'' \<or> name entry = X @ ''-2.1.egg-info'')"
  then show "entry_matches fs X entry = Inr True"
    by (auto simp: entry_matches_def startswith_iff endswith_iff)
next
  assume "name entry = X @ ''tra.dist-info''"
  then show "entry_matches fs X entry \<noteq> Inr True"
    by (auto simp: entry_matches_def startswith_iff split: sum.splits)
qed

theorem entry_matches_four_forms_witness:
  "\<not> endswith ''X'' ''.dist'' \<and> \<not> endswith ''X'' ''.egg''
   \<and> entry_matches two_fs ''X'' (Path ''/m/X-2.1.egg-info'') = Inr True
   \<and> entry_matches two_fs ''X'' (Path ''/m/Xtra.dist-info'') \<noteq> Inr True
   \<and> entry_matches two_fs ''X'' (Path ''/m/X-2.1.dist-info'') \<noteq> Inr True"
proof -
  have X: "\<not> endswith ''X'' ''.dist'' \<and> \<not> endswith ''X'' ''.egg''"
    by (simp add: endswith_def)
  have egg: "is_dir two_fs (Path ''/m/X-2.1.egg-info'') = Inr True \<and>
      (name (Path ''/m/X-2.1.egg-info'') = ''X'' @ ''.dist-info'' \<or>
       name (Path ''/m/X-2.1.egg-info'') = ''X'' @ ''.egg-info'' \<or>
       name (Path ''/m/X-2.1.egg-info'') = ''X'' @ ''-2.1.dist-info'' \<or>
       name (Path ''/m/X-2.1.egg-info'') = ''X'' @ ''-2.1.egg-info'')"
    by (simp add: fs_eval two_fs_def)
  have m1: "entry_matches two_fs ''X'' (Path ''/m/X-2.1.egg-info'') = Inr True"
    using egg
    by (rule entry_matches_four_forms [where fs = two_fs and X = "''X''"
          and entry = "Path ''/m/X-2.1.egg-info''", THEN conjunct2, THEN conjunct1, THEN mp])
  have tra: "name (Path ''/m/Xtra.dist-info'') = ''X'' @ ''tra.dist-info''"
    by (simp add: fs_eval)
  have m2: "entry_matches two_fs ''X'' (Path ''/m/Xtra.dist-info'') \<noteq> Inr True"
    using tra
    by (rule entry_matches_four_forms [where fs = two_fs and X = "''X''"
          and entry = "Path ''/m/Xtra.dist-info''", THEN conjunct2, THEN conjunct2, THEN mp])
  have isfile: "is_dir two_fs (Path ''/m/X-2.1.dist-info'') \<noteq> Inr True"
    by (simp add: fs_eval two_fs_def)
  have "entry_matches two_fs ''X'' (Path ''/m/X-2.1.dist-info'') = Inr True \<longleftrightarrow>
         is_dir two_fs (Path ''/m/X-2.1.dist-info'') = Inr True \<and>
         (name (Path ''/m/X-2.1.dist-info'') = ''X'' @ ''.dist-info'' \<or>
          name (Path ''/m/X-2.1.dist-info'') = ''X'' @ ''.egg-info'' \<or>
          (\<exists>v. name (Path ''/m/X-2.1.dist-info'') = ''X'' @ ''-'' @ v @ ''.dist-info'') \<or>
          (\<exists>v. name (Path ''/m/X-2.1.dist-info'') = ''X'' @ ''-'' @ v @ ''.egg-info''))"
    using X
    by (rule entry_matches_four_forms [where fs = two_fs and X = "''X''"
          and entry = "Path ''/m/X-2.1.dist-info''", THEN conjunct1, THEN mp])
  with isfile have m3: "entry_matches two_fs ''X'' (Path ''/m/X-2.1.dist-info'') \<noteq> Inr True"
    by (simp only: simp_thms)
  show ?thesis
    using X m1 m2 m3 by (intro conjI) simp_all
qed

section \<open>The metadata-reading object: properties\<close>

text \<open>
  C9, as stated, fails in its first part. The file is read as UTF-8 text with
  universal newlines: a file with DOS line ends is returned with its line ends
  changed, so not as its exact content, and a file that is not UTF-8 raises
  \<^verbatim>\<open>UnicodeDecodeError\<close>. For a file that does not exist the result is not
  always \<^verbatim>\<open>None\<close>: an absent name of 256 characters makes \<^verbatim>\<open>exists()\<close> raise
  \<^verbatim>\<open>OSError\<close>.
\<close>

theorem read_text_not_exact:
  "os_read fedora_fs (pjoin (self_dist_info fedora_dist) ''WHEEL'') =
     Inr (''Tag: a'' @ [CHR 0x0D, CHR 0x0A] @ ''Tag: b'')
   \<and> read_text fedora_fs fedora_dist ''WHEEL'' = Inr (Some (''Tag: a'' @ [CHR 0x0A] @ ''Tag: b''))
   \<and> os_read fedora_fs (pjoin (self_dist_info fedora_dist) ''LICENSE'') = Inr [CHR 0xE9]
   \<and> read_text fedora_fs fedora_dist ''LICENSE'' = Inl UnicodeDecodeError
   \<and> os_stat fedora_fs (pjoin (self_dist_info fedora_dist) (replicate 256 CHR ''a'')) =
       Inl (OSError ENAMETOOLONG)
   \<and> read_text fedora_fs fedora_dist (replicate 256 CHR ''a'') = Inl (OSError ENAMETOOLONG)"
  by code_simp

text \<open>
  C9, amended. Whatever the operating system answers: when \<^verbatim>\<open>exists()\<close> answers
  \<^verbatim>\<open>True\<close> and the file's bytes are well-formed UTF-8, \<open>read_text\<close> returns
  them with each carriage return and line feed pair and each lone carriage
  return turned into a line feed, which is the exact content when the bytes
  hold no carriage return; bytes that are not UTF-8 raise
  \<^verbatim>\<open>UnicodeDecodeError\<close>, and an exception of the read is passed on. When
  \<^verbatim>\<open>exists()\<close> answers \<^verbatim>\<open>False\<close> the result is the absent value \<^verbatim>\<open>None\<close>, and
  when it raises, that exception is passed on. \<open>locate_file\<close> resolves its
  argument against the parent of the metadata directory: for a metadata
  directory \<open>root/n\<close> and a relative path the result is \<open>root/rel\<close>, which
  differs from \<open>root/n/rel\<close>; for an object built by the constructor the result
  lies under one of the metadata roots.
\<close>

theorem metadata_object_spec:
  "(exists fs (pjoin (self_dist_info self) filename) = Inr True \<and>
    os_read fs (pjoin (self_dist_info self) filename) = Inr bytes \<and> utf8_valid bytes \<longrightarrow>
      read_text fs self filename = Inr (Some (universal_newlines bytes)))
   \<and> (exists fs (pjoin (self_dist_info self) filename) = Inr True \<and>
       os_read fs (pjoin (self_dist_info self) filename) = Inr bytes \<and> utf8_valid bytes \<and>
       CHR 0x0D \<notin> set bytes \<longrightarrow>
        read_text fs self filename = Inr (Some bytes))
   \<and> (exists fs (pjoin (self_dist_info self) filename) = Inr True \<and>
       os_read fs (pjoin (self_dist_info self) filename) = Inr bytes \<and> \<not> utf8_valid bytes \<longrightarrow>
        read_text fs self filename = Inl UnicodeDecodeError)
   \<and> (exists fs (pjoin (self_dist_info self) filename) = Inr True \<and>
       os_read fs (pjoin (self_dist_info self) filename) = Inl err \<longrightarrow>
        read_text fs self filename = Inl err)
   \<and> (exists fs (pjoin (self_dist_info self) filename) = Inr False \<longrightarrow>
        read_text fs self filename = Inr None)
   \<and> (exists fs (pjoin (self_dist_info self) filename) = Inl err \<longrightarrow>
        read_text fs self filename = Inl err)
   \<and> locate_file self rel = pjoin (parent (self_dist_info self)) rel
   \<and> (self_dist_info self = root\<lparr>parts := parts root @ [n]\<rparr> \<and> \<not> is_abs rel \<longrightarrow>
        locate_file self rel = pjoin root rel \<and>
        locate_file self rel \<noteq> pjoin (self_dist_info self) rel)
   \<and> (IsolatedDistribution_init fs DIST_INFO_DIR X = Inr self \<longrightarrow>
        (\<exists>root \<in> set DIST_INFO_DIR. locate_file self rel = pjoin (Path root) rel))"
proof (intro conjI impI)
  assume "exists fs (pjoin (self_dist_info self) filename) = Inr True \<and>
    os_read fs (pjoin (self_dist_info self) filename) = Inr bytes \<and> utf8_valid bytes"
  then show "read_text fs self filename = Inr (Some (universal_newlines bytes))"
    by (simp add: read_text_def Let_def path_read_text_def)
next
  assume "exists fs (pjoin (self_dist_info self) filename) = Inr True \<and>
       os_read fs (pjoin (self_dist_info self) filename) = Inr bytes \<and> utf8_valid bytes \<and>
       CHR 0x0D \<notin> set bytes"
  then show "read_text fs self filename = Inr (Some bytes)"
    by (simp add: read_text_def Let_def path_read_text_def universal_newlines_id)
next
  assume "exists fs (pjoin (self_dist_info self) filename) = Inr True \<and>
       os_read fs (pjoin (self_dist_info self) filename) = Inr bytes \<and> \<not> utf8_valid bytes"
  then show "read_text fs self filename = Inl UnicodeDecodeError"
    by (simp add: read_text_def Let_def path_read_text_def)
next
  assume "exists fs (pjoin (self_dist_info self) filename) = Inr True \<and>
       os_read fs (pjoin (self_dist_info self) filename) = Inl err"
  then show "read_text fs self filename = Inl err"
    by (simp add: read_text_def Let_def path_read_text_def)
next
  assume "exists fs (pjoin (self_dist_info self) filename) = Inr False"
  then show "read_text fs self filename = Inr None"
    by (simp add: read_text_def Let_def)
next
  assume "exists fs (pjoin (self_dist_info self) filename) = Inl err"
  then show "read_text fs self filename = Inl err"
    by (simp add: read_text_def Let_def)
next
  show "locate_file self rel = pjoin (parent (self_dist_info self)) rel"
    by (simp add: locate_file_def)
next
  assume h: "self_dist_info self = root\<lparr>parts := parts root @ [n]\<rparr> \<and> \<not> is_abs rel"
  then show "locate_file self rel = pjoin root rel"
    by (simp add: locate_file_def parent_child)
next
  assume h: "self_dist_info self = root\<lparr>parts := parts root @ [n]\<rparr> \<and> \<not> is_abs rel"
  have "parts (locate_file self rel) = parts root @ path_parts rel"
    using h by (simp add: locate_file_def parent_child pjoin_def)
  moreover have "parts (pjoin (self_dist_info self) rel) = parts root @ [n] @ path_parts rel"
    using h by (simp add: pjoin_def)
  ultimately have "length (parts (locate_file self rel)) \<noteq>
      length (parts (pjoin (self_dist_info self) rel))"
    by simp
  then show "locate_file self rel \<noteq> pjoin (self_dist_info self) rel"
    by auto
next
  assume "IsolatedDistribution_init fs DIST_INFO_DIR X = Inr self"
  then have "locate_dist_info_dir fs DIST_INFO_DIR X = Inr (Some (self_dist_info self))"
    by (auto simp: IsolatedDistribution_init_def split: sum.splits option.splits)
  from located_entry [OF this] obtain root n where
    "root \<in> set DIST_INFO_DIR"
    "self_dist_info self = (Path root)\<lparr>parts := parts (Path root) @ [n]\<rparr>"
    by blast
  then show "\<exists>root \<in> set DIST_INFO_DIR. locate_file self rel = pjoin (Path root) rel"
    by (auto simp: locate_file_def parent_child)
qed

theorem metadata_object_spec_witness:
  "IsolatedDistribution_init fedora_fs [''/usr/lib64/python3.12/site-packages/''] ''PySide6'' =
     Inr fedora_dist
   \<and> read_text fedora_fs fedora_dist ''METADATA'' = Inr (Some ''Name: PySide6'')
   \<and> read_text fedora_fs fedora_dist ''WHEEL'' = Inr (Some (''Tag: a'' @ [CHR 0x0A] @ ''Tag: b''))
   \<and> read_text fedora_fs fedora_dist ''LICENSE'' = Inl UnicodeDecodeError
   \<and> read_text fedora_fs fedora_dist ''..'' = Inl IsADirectoryError
   \<and> read_text fedora_fs fedora_dist ''RECORD'' = Inr None
   \<and> read_text fedora_fs fedora_dist (replicate 256 CHR ''a'') = Inl (OSError ENAMETOOLONG)
   \<and> locate_file fedora_dist ''PySide6/__init__.py'' =
       Path ''/usr/lib64/python3.12/site-packages/PySide6/__init__.py''
   \<and> locate_file fedora_dist ''PySide6/__init__.py'' \<noteq>
       Path ''/usr/lib64/python3.12/site-packages/PySide6-6.7.0.dist-info/PySide6/__init__.py''"
proof -
  have init: "IsolatedDistribution_init fedora_fs [''/usr/lib64/python3.12/site-packages/'']
      ''PySide6'' = Inr fedora_dist"
    by (simp add: IsolatedDistribution_init_def fedora_dist_def fs_eval fedora_fs_def)
  have meta: "exists fedora_fs (pjoin (self_dist_info fedora_dist) ''METADATA'') = Inr True \<and>
      os_read fedora_fs (pjoin (self_dist_info fedora_dist) ''METADATA'') = Inr ''Name: PySide6'' \<and>
      utf8_valid ''Name: PySide6'' \<and> CHR 0x0D \<notin> set ''Name: PySide6''"
    by (simp add: fedora_dist_def fs_eval fedora_fs_def)
  have r1: "read_text fedora_fs fedora_dist ''METADATA'' = Inr (Some ''Name: PySide6'')"
    using meta
    by (rule metadata_object_spec [where fs = fedora_fs and self = fedora_dist
          and filename = "''METADATA''" and bytes = "''Name: PySide6''",
          THEN conjunct2, THEN conjunct1, THEN mp])
  have wheel: "exists fedora_fs (pjoin (self_dist_info fedora_dist) ''WHEEL'') = Inr True \<and>
      os_read fedora_fs (pjoin (self_dist_info fedora_dist) ''WHEEL'') =
        Inr (''Tag: a'' @ [CHR 0x0D, CHR 0x0A] @ ''Tag: b'') \<and>
      utf8_valid (''Tag: a'' @ [CHR 0x0D, CHR 0x0A] @ ''Tag: b'')"
    by (simp add: fedora_dist_def fs_eval fedora_fs_def)
  have "read_text fedora_fs fedora_dist ''WHEEL'' =
      Inr (Some (universal_newlines (''Tag: a'' @ [CHR 0x0D, CHR 0x0A] @ ''Tag: b'')))"
    using wheel
    by (rule metadata_object_spec [where fs = fedora_fs and self = fedora_dist
          and filename = "''WHEEL''" and bytes = "''Tag: a'' @ [CHR 0x0D, CHR 0x0A] @ ''Tag: b''",
          THEN conjunct1, THEN mp])
  then have r2: "read_text fedora_fs fedora_dist ''WHEEL'' =
      Inr (Some (''Tag: a'' @ [CHR 0x0A] @ ''Tag: b''))"
    by simp
  have licence: "exists fedora_fs (pjoin (self_dist_info fedora_dist) ''LICENSE'') = Inr True \<and>
      os_read fedora_fs (pjoin (self_dist_info fedora_dist) ''LICENSE'') = Inr [CHR 0xE9] \<and>
      \<not> utf8_valid [CHR 0xE9]"
    by (simp add: fedora_dist_def fs_eval fedora_fs_def)
  have r3: "read_text fedora_fs fedora_dist ''LICENSE'' = Inl UnicodeDecodeError"
    using licence
    by (rule metadata_object_spec [where fs = fedora_fs and self = fedora_dist
          and filename = "''LICENSE''" and bytes = "[CHR 0xE9]",
          THEN conjunct2, THEN conjunct2, THEN conjunct1, THEN mp])
  have up: "exists fedora_fs (pjoin (self_dist_info fedora_dist) ''..'') = Inr True \<and>
      os_read fedora_fs (pjoin (self_dist_info fedora_dist) ''..'') = Inl IsADirectoryError"
    by (simp add: fedora_dist_def fs_eval fedora_fs_def)
  have r4: "read_text fedora_fs fedora_dist ''..'' = Inl IsADirectoryError"
    using up
    by (rule metadata_object_spec [where fs = fedora_fs and self = fedora_dist
          and filename = "''..''" and err = IsADirectoryError,
          THEN conjunct2, THEN conjunct2, THEN conjunct2, THEN conjunct1, THEN mp])
  have absent: "exists fedora_fs (pjoin (self_dist_info fedora_dist) ''RECORD'') = Inr False"
    by (simp add: fedora_dist_def fs_eval fedora_fs_def)
  have r5: "read_text fedora_fs fedora_dist ''RECORD'' = Inr None"
    using absent
    by (rule metadata_object_spec [where fs = fedora_fs and self = fedora_dist
          and filename = "''RECORD''",
          THEN conjunct2, THEN conjunct2, THEN conjunct2, THEN conjunct2, THEN conjunct1, THEN mp])
  have long: "exists fedora_fs (pjoin (self_dist_info fedora_dist) (replicate 256 CHR ''a'')) =
      Inl (OSError ENAMETOOLONG)"
    by code_simp
  have r6: "read_text fedora_fs fedora_dist (replicate 256 CHR ''a'') = Inl (OSError ENAMETOOLONG)"
    using long
    by (rule metadata_object_spec [where fs = fedora_fs and self = fedora_dist
          and filename = "replicate 256 CHR ''a''" and err = "OSError ENAMETOOLONG",
          THEN conjunct2, THEN conjunct2, THEN conjunct2, THEN conjunct2, THEN conjunct2,
          THEN conjunct1, THEN mp])
  have child: "self_dist_info fedora_dist =
      (Path ''/usr/lib64/python3.12/site-packages/'')
        \<lparr>parts := parts (Path ''/usr/lib64/python3.12/site-packages/'') @ [''PySide6-6.7.0.dist-info'']\<rparr>
      \<and> \<not> is_abs ''PySide6/__init__.py''"
    by (simp add: fedora_dist_def fs_eval)
  have l: "locate_file fedora_dist ''PySide6/__init__.py'' =
        pjoin (Path ''/usr/lib64/python3.12/site-packages/'') ''PySide6/__init__.py''
      \<and> locate_file fedora_dist ''PySide6/__init__.py'' \<noteq>
        pjoin (self_dist_info fedora_dist) ''PySide6/__init__.py''"
    using child
    by (rule metadata_object_spec [where self = fedora_dist
          and root = "Path ''/usr/lib64/python3.12/site-packages/''"
          and n = "''PySide6-6.7.0.dist-info''" and rel = "''PySide6/__init__.py''",
          THEN conjunct2, THEN conjunct2, THEN conjunct2, THEN conjunct2, THEN conjunct2,
          THEN conjunct2, THEN conjunct2, THEN conjunct1, THEN mp])
  have j1: "pjoin (Path ''/usr/lib64/python3.12/site-packages/'') ''PySide6/__init__.py'' =
      Path ''/usr/lib64/python3.12/site-packages/PySide6/__init__.py''"
    by (simp add: fs_eval)
  have j2: "pjoin (self_dist_info fedora_dist) ''PySide6/__init__.py'' =
      Path ''/usr/lib64/python3.12/site-packages/PySide6-6.7.0.dist-info/PySide6/__init__.py''"
    by (simp add: fedora_dist_def fs_eval)
  have l1: "locate_file fedora_dist ''PySide6/__init__.py'' =
      Path ''/usr/lib64/python3.12/site-packages/PySide6/__init__.py''"
    using l unfolding j1 by (rule conjunct1)
  have l2: "locate_file fedora_dist ''PySide6/__init__.py'' \<noteq>
      Path ''/usr/lib64/python3.12/site-packages/PySide6-6.7.0.dist-info/PySide6/__init__.py''"
    using l unfolding j2 by (rule conjunct2)
  show ?thesis
    using init r1 r2 r3 r4 r5 r6 l1 l2 by (intro conjI)
qed

section \<open>The finder: properties\<close>

text \<open>
  C1. \<open>find_spec\<close> returns a spec only for a name that equals a key of
  \<open>package_dirs\<close> or starts with a key followed by a dot; for the finder the
  module installs the keys are \<^verbatim>\<open>PySide6\<close> and \<^verbatim>\<open>shiboken6\<close>, with the
  located directories as values, and the name \<^verbatim>\<open>PySide6x\<close> is declined
  whatever the path finder would answer. For an intercepted name the path
  finder is asked with the one-element search path holding the parent of each
  package directory, in the order of the directories: the result is the first
  answer that is not \<^verbatim>\<open>None\<close>, and \<^verbatim>\<open>None\<close> when there is no such answer.
\<close>

theorem find_spec_intercepts:
  "(find_spec pf self fullname path target \<noteq> None \<longrightarrow>
      (\<exists>pkg \<in> set (map fst (package_dirs self)).
         fullname = pkg \<or> startswith fullname (pkg @ ''.'')))
   \<and> (find_spec pf (meta_path_finder pyside6_dirs shiboken6_dirs) fullname path target \<noteq> None \<longrightarrow>
        fullname = ''PySide6'' \<or> startswith fullname ''PySide6.'' \<or>
        fullname = ''shiboken6'' \<or> startswith fullname ''shiboken6.'')
   \<and> find_spec pf (meta_path_finder pyside6_dirs shiboken6_dirs) ''PySide6x'' path target = None
   \<and> find_spec pf self fullname path target =
       (case filter (\<lambda>r. r \<noteq> None)
               (map (\<lambda>p. pf fullname [str_path (parent p)])
                  (concat (map snd
                     (filter (\<lambda>item. fullname = fst item \<or> startswith fullname (fst item @ ''.''))
                        (package_dirs self))))) of
          [] \<Rightarrow> None | r # rs \<Rightarrow> r)
   \<and> (install_finder fs PACKAGE_DIR = Inr self \<longrightarrow>
        (\<exists>a b. locate_package fs PACKAGE_DIR ''PySide6'' = Inr a \<and>
               locate_package fs PACKAGE_DIR ''shiboken6'' = Inr b \<and>
               self = meta_path_finder a b))"
proof (intro conjI impI)
  assume "find_spec pf self fullname path target \<noteq> None"
  then show "\<exists>pkg \<in> set (map fst (package_dirs self)).
         fullname = pkg \<or> startswith fullname (pkg @ ''.'')"
    unfolding find_spec_def by (rule find_spec_items_intercept)
next
  assume "find_spec pf (meta_path_finder pyside6_dirs shiboken6_dirs) fullname path target \<noteq> None"
  then have "\<exists>pkg \<in> set (map fst (package_dirs (meta_path_finder pyside6_dirs shiboken6_dirs))).
         fullname = pkg \<or> startswith fullname (pkg @ ''.'')"
    unfolding find_spec_def by (rule find_spec_items_intercept)
  then show "fullname = ''PySide6'' \<or> startswith fullname ''PySide6.'' \<or>
        fullname = ''shiboken6'' \<or> startswith fullname ''shiboken6.''"
    by (auto simp: meta_path_finder_def)
next
  show "find_spec pf (meta_path_finder pyside6_dirs shiboken6_dirs) ''PySide6x'' path target = None"
    by (simp add: find_spec_def meta_path_finder_def)
next
  show "find_spec pf self fullname path target =
       (case filter (\<lambda>r. r \<noteq> None)
               (map (\<lambda>p. pf fullname [str_path (parent p)])
                  (concat (map snd
                     (filter (\<lambda>item. fullname = fst item \<or> startswith fullname (fst item @ ''.''))
                        (package_dirs self))))) of
          [] \<Rightarrow> None | r # rs \<Rightarrow> r)"
    unfolding find_spec_def by (rule find_spec_items_filter)
next
  assume "install_finder fs PACKAGE_DIR = Inr self"
  then show "\<exists>a b. locate_package fs PACKAGE_DIR ''PySide6'' = Inr a \<and>
               locate_package fs PACKAGE_DIR ''shiboken6'' = Inr b \<and>
               self = meta_path_finder a b"
    by (auto simp: install_finder_def split: sum.splits)
qed

theorem find_spec_intercepts_witness:
  "install_finder fedora_fs [''/usr/lib/python3.12/site-packages/''] =
     Inr (meta_path_finder [Path ''/usr/lib/python3.12/site-packages/PySide6''] [])
   \<and> find_spec fedora_pf (meta_path_finder [Path ''/usr/lib/python3.12/site-packages/PySide6''] [])
       ''PySide6.QtCore'' None (None :: unit option) = Some ''PySide6.QtCore''
   \<and> startswith ''PySide6.QtCore'' ''PySide6.''
   \<and> find_spec fedora_pf (meta_path_finder [Path ''/usr/lib/python3.12/site-packages/PySide6''] [])
       ''PySide6x'' None (None :: unit option) = None
   \<and> find_spec fedora_pf (meta_path_finder [Path ''/usr/lib/python3.12/site-packages/PySide6''] [])
       ''shiboken6'' None (None :: unit option) = None"
proof -
  let ?dirs = "[Path ''/usr/lib/python3.12/site-packages/PySide6'']"
  let ?finder = "meta_path_finder ?dirs []"
  note spec = find_spec_intercepts [where pf = fedora_pf and fs = fedora_fs
      and PACKAGE_DIR = "[''/usr/lib/python3.12/site-packages/'']" and self = ?finder
      and pyside6_dirs = ?dirs and shiboken6_dirs = "[]"
      and path = None and target = "None :: unit option"]
  have inst: "install_finder fedora_fs [''/usr/lib/python3.12/site-packages/''] = Inr ?finder"
    by (simp add: install_finder_def fs_eval fedora_fs_def)
  have dirs: "package_dirs ?finder = [(''PySide6'', ?dirs), (''shiboken6'', [])]"
    by (simp add: meta_path_finder_def)
  have found:
    "find_spec fedora_pf ?finder ''PySide6.QtCore'' None (None :: unit option) = Some ''PySide6.QtCore''"
    unfolding spec [where fullname = "''PySide6.QtCore''",
        THEN conjunct2, THEN conjunct2, THEN conjunct2, THEN conjunct1] dirs
    by (simp add: fedora_pf_def fs_eval)
  then have "find_spec fedora_pf ?finder ''PySide6.QtCore'' None (None :: unit option) \<noteq> None"
    by simp
  then have "''PySide6.QtCore'' = ''PySide6'' \<or> startswith ''PySide6.QtCore'' ''PySide6.'' \<or>
        ''PySide6.QtCore'' = ''shiboken6'' \<or> startswith ''PySide6.QtCore'' ''shiboken6.''"
    by (rule spec [where fullname = "''PySide6.QtCore''", THEN conjunct2, THEN conjunct1, THEN mp])
  then have sub: "startswith ''PySide6.QtCore'' ''PySide6.''"
    by simp
  have x: "find_spec fedora_pf ?finder ''PySide6x'' None (None :: unit option) = None"
    by (rule spec [THEN conjunct2, THEN conjunct2, THEN conjunct1])
  have absent:
    "find_spec fedora_pf ?finder ''shiboken6'' None (None :: unit option) = None"
    unfolding spec [where fullname = "''shiboken6''",
        THEN conjunct2, THEN conjunct2, THEN conjunct2, THEN conjunct1] dirs
    by simp
  show ?thesis
    using inst found sub x absent by (intro conjI)
qed

text \<open>
  C10. The arguments \<open>path\<close> and \<open>target\<close> have no influence: two calls that
  agree on the finder, the path finder and the module name return the same
  result.
\<close>

theorem find_spec_ignores_path_target:
  "find_spec pf self fullname path1 target1 = find_spec pf self fullname path2 target2"
  by (simp add: find_spec_def)

theorem find_spec_ignores_path_target_witness:
  "find_spec fedora_pf (meta_path_finder [Path ''/usr/lib/python3.12/site-packages/PySide6''] [])
       ''PySide6.QtCore'' None (None :: unit option) =
   find_spec fedora_pf (meta_path_finder [Path ''/usr/lib/python3.12/site-packages/PySide6''] [])
       ''PySide6.QtCore'' (Some [''/tmp'']) (Some ())"
  by (rule find_spec_ignores_path_target)

text \<open>
  C2. \<open>find_distributions\<close> yields nothing without a context and for a
  context without a name. For a name that is a key of \<open>package_dirs\<close> (for the
  installed finder, \<^verbatim>\<open>PySide6\<close> and \<^verbatim>\<open>shiboken6\<close>) it yields exactly one
  object, backed by the metadata directory \<open>locate_dist_info_dir\<close> returns, and
  raises \<^verbatim>\<open>ImportError\<close> when that lookup returns \<^verbatim>\<open>None\<close>. For any other
  name it yields nothing.
\<close>

theorem find_distributions_spec:
  "find_distributions fs DIST_INFO_DIR self None = Inr []
   \<and> find_distributions fs DIST_INFO_DIR self (Some \<lparr>ctx_name = None\<rparr>) = Inr []
   \<and> set (map fst (package_dirs (meta_path_finder pyside6_dirs shiboken6_dirs))) = {''PySide6'', ''shiboken6''}
   \<and> (n \<in> set (map fst (package_dirs self)) \<and> n \<noteq> [] \<and>
        locate_dist_info_dir fs DIST_INFO_DIR n = Inr (Some d) \<longrightarrow>
        find_distributions fs DIST_INFO_DIR self (Some \<lparr>ctx_name = Some n\<rparr>) =
          Inr [\<lparr>self_pkgname = n, self_dist_info = d\<rparr>])
   \<and> (n \<in> set (map fst (package_dirs self)) \<and> n \<noteq> [] \<and>
        locate_dist_info_dir fs DIST_INFO_DIR n = Inr None \<longrightarrow>
        find_distributions fs DIST_INFO_DIR self (Some \<lparr>ctx_name = Some n\<rparr>) =
          Inl (ImportError (''No dist-info found for '' @ n)))
   \<and> (n \<notin> set (map fst (package_dirs self)) \<longrightarrow>
        find_distributions fs DIST_INFO_DIR self (Some \<lparr>ctx_name = Some n\<rparr>) = Inr [])"
proof (intro conjI impI)
  show "find_distributions fs DIST_INFO_DIR self None = Inr []"
    by (simp add: find_distributions_def)
  show "find_distributions fs DIST_INFO_DIR self (Some \<lparr>ctx_name = None\<rparr>) = Inr []"
    by (simp add: find_distributions_def)
  show "set (map fst (package_dirs (meta_path_finder pyside6_dirs shiboken6_dirs))) = {''PySide6'', ''shiboken6''}"
    by (simp add: meta_path_finder_def)
next
  assume "n \<in> set (map fst (package_dirs self)) \<and> n \<noteq> [] \<and>
        locate_dist_info_dir fs DIST_INFO_DIR n = Inr (Some d)"
  then show "find_distributions fs DIST_INFO_DIR self (Some \<lparr>ctx_name = Some n\<rparr>) =
          Inr [\<lparr>self_pkgname = n, self_dist_info = d\<rparr>]"
    by (simp add: find_distributions_def IsolatedDistribution_init_def)
next
  assume "n \<in> set (map fst (package_dirs self)) \<and> n \<noteq> [] \<and>
        locate_dist_info_dir fs DIST_INFO_DIR n = Inr None"
  then show "find_distributions fs DIST_INFO_DIR self (Some \<lparr>ctx_name = Some n\<rparr>) =
          Inl (ImportError (''No dist-info found for '' @ n))"
    by (simp add: find_distributions_def IsolatedDistribution_init_def)
next
  assume "n \<notin> set (map fst (package_dirs self))"
  then show "find_distributions fs DIST_INFO_DIR self (Some \<lparr>ctx_name = Some n\<rparr>) = Inr []"
    by (simp add: find_distributions_def)
qed

theorem find_distributions_spec_witness:
  "find_distributions fedora_fs [''/usr/lib64/python3.12/site-packages/'']
      (meta_path_finder [Path ''/usr/lib/python3.12/site-packages/PySide6''] [])
      (Some \<lparr>ctx_name = Some ''PySide6''\<rparr>) =
     Inr [\<lparr>self_pkgname = ''PySide6'',
           self_dist_info = Path ''/usr/lib64/python3.12/site-packages/PySide6-6.7.0.dist-info''\<rparr>]
   \<and> find_distributions fedora_fs [''/usr/lib64/python3.12/site-packages/'']
      (meta_path_finder [Path ''/usr/lib/python3.12/site-packages/PySide6''] [])
      (Some \<lparr>ctx_name = Some ''shiboken6''\<rparr>) =
     Inl (ImportError ''No dist-info found for shiboken6'')
   \<and> find_distributions fedora_fs [''/usr/lib64/python3.12/site-packages/'']
      (meta_path_finder [Path ''/usr/lib/python3.12/site-packages/PySide6''] [])
      (Some \<lparr>ctx_name = Some ''numpy''\<rparr>) = Inr []"
proof -
  let ?dirs = "[Path ''/usr/lib/python3.12/site-packages/PySide6'']"
  let ?finder = "meta_path_finder ?dirs []"
  let ?roots = "[''/usr/lib64/python3.12/site-packages/'']"
  let ?info = "Path ''/usr/lib64/python3.12/site-packages/PySide6-6.7.0.dist-info''"
  note spec = find_distributions_spec [where fs = fedora_fs and DIST_INFO_DIR = ?roots
      and self = ?finder and pyside6_dirs = ?dirs and shiboken6_dirs = "[]"]
  have keys: "set (map fst (package_dirs ?finder)) = {''PySide6'', ''shiboken6''}"
    by (rule spec [THEN conjunct2, THEN conjunct2, THEN conjunct1])
  have located: "locate_dist_info_dir fedora_fs ?roots ''PySide6'' = Inr (Some ?info)"
    by (simp add: fs_eval fedora_fs_def)
  have p: "''PySide6'' \<in> set (map fst (package_dirs ?finder)) \<and> ''PySide6'' \<noteq> [] \<and>
      locate_dist_info_dir fedora_fs ?roots ''PySide6'' = Inr (Some ?info)"
    unfolding keys located by simp
  have one: "find_distributions fedora_fs ?roots ?finder (Some \<lparr>ctx_name = Some ''PySide6''\<rparr>) =
     Inr [\<lparr>self_pkgname = ''PySide6'', self_dist_info = ?info\<rparr>]"
    using p
    by (rule spec [where n = "''PySide6''" and d = ?info,
          THEN conjunct2, THEN conjunct2, THEN conjunct2, THEN conjunct1, THEN mp])
  have missing: "locate_dist_info_dir fedora_fs ?roots ''shiboken6'' = Inr None"
    by (simp add: fs_eval fedora_fs_def)
  have s: "''shiboken6'' \<in> set (map fst (package_dirs ?finder)) \<and> ''shiboken6'' \<noteq> [] \<and>
      locate_dist_info_dir fedora_fs ?roots ''shiboken6'' = Inr None"
    unfolding keys missing by simp
  have "find_distributions fedora_fs ?roots ?finder (Some \<lparr>ctx_name = Some ''shiboken6''\<rparr>) =
     Inl (ImportError (''No dist-info found for '' @ ''shiboken6''))"
    using s
    by (rule spec [where n = "''shiboken6''",
          THEN conjunct2, THEN conjunct2, THEN conjunct2, THEN conjunct2, THEN conjunct1, THEN mp])
  then have hard: "find_distributions fedora_fs ?roots ?finder (Some \<lparr>ctx_name = Some ''shiboken6''\<rparr>) =
     Inl (ImportError ''No dist-info found for shiboken6'')"
    by simp
  have o: "''numpy'' \<notin> set (map fst (package_dirs ?finder))"
    unfolding keys by simp
  have other: "find_distributions fedora_fs ?roots ?finder (Some \<lparr>ctx_name = Some ''numpy''\<rparr>) = Inr []"
    using o
    by (rule spec [where n = "''numpy''",
          THEN conjunct2, THEN conjunct2, THEN conjunct2, THEN conjunct2, THEN conjunct2, THEN mp])
  show ?thesis
    using one hard other by (intro conjI)
qed

section \<open>Layout resolution: properties\<close>

text \<open>
  C7, as stated, fails in its last part: an output that is a literal but not a
  list raises nothing. A child that prints the string literal \<^verbatim>\<open>'/opt'\<close> makes
  that string both root variables.
\<close>

theorem resolve_layout_unchecked:
  "''arch'' \<noteq> ''fedora'' \<and> ''arch'' \<noteq> ''ubuntu'' \<and> \<not> startswith ''arch'' ''opensuse''
   \<and> subprocess_run str_host site_command =
       Inr \<lparr>returncode = 0, stdout = [CHR 0x27] @ ''/opt'' @ [CHR 0x27, CHR 0x0A]\<rparr>
   \<and> strip ([CHR 0x27] @ ''/opt'' @ [CHR 0x27, CHR 0x0A]) = [CHR 0x27] @ ''/opt'' @ [CHR 0x27]
   \<and> literal_eval str_host ([CHR 0x27] @ ''/opt'' @ [CHR 0x27]) = Inr (PyStr ''/opt'')
   \<and> resolve_layout str_host ''arch'' 3 12 [] =
       (Inr (PyStr ''/opt'', PyStr ''/opt''), [site_command])"
  by (simp add: resolve_layout_def get_system_site_def Let_def str_host_def strip_def
        isspace1_def isspace2_def isspace3_def byte_def)

text \<open>
  C7, amended. For a distribution identifier that is not \<^verbatim>\<open>fedora\<close>, not
  \<^verbatim>\<open>ubuntu\<close> and does not start with \<^verbatim>\<open>opensuse\<close>, exactly one subprocess call
  is made (the log grows by the one command). When the child exits with status
  zero and its stripped output is a literal, the value of the literal is,
  unchecked, both the package roots and the metadata roots; for a literal list
  of strings both are that list. A non-zero exit status raises
  \<^verbatim>\<open>CalledProcessError\<close>, an output that is no literal raises the parser's
  exception, and an exception of starting the child is passed on.
\<close>

theorem resolve_layout_unknown:
  "DISTRO \<noteq> ''fedora'' \<and> DISTRO \<noteq> ''ubuntu'' \<and> \<not> startswith DISTRO ''opensuse'' \<longrightarrow>
     snd (resolve_layout h DISTRO major minor calls) = calls @ [site_command]
     \<and> (subprocess_run h site_command = Inr cp \<and> returncode cp = 0 \<and>
          literal_eval h (strip (stdout cp)) = Inr v \<longrightarrow>
          fst (resolve_layout h DISTRO major minor calls) = Inr (v, v))
     \<and> (subprocess_run h site_command = Inr cp \<and> returncode cp = 0 \<and>
          literal_eval h (strip (stdout cp)) = Inr (PyList (map PyStr dirs)) \<longrightarrow>
          fst (resolve_layout h DISTRO major minor calls) =
            Inr (PyList (map PyStr dirs), PyList (map PyStr dirs)))
     \<and> (subprocess_run h site_command = Inr cp \<and> returncode cp \<noteq> 0 \<longrightarrow>
          fst (resolve_layout h DISTRO major minor calls) =
            Inl (CalledProcessError (returncode cp)))
     \<and> (subprocess_run h site_command = Inr cp \<and> returncode cp = 0 \<and>
          literal_eval h (strip (stdout cp)) = Inl err \<longrightarrow>
          fst (resolve_layout h DISTRO major minor calls) = Inl err)
     \<and> (subprocess_run h site_command = Inl err \<longrightarrow>
          fst (resolve_layout h DISTRO major minor calls) = Inl err)"
  by (simp add: resolve_layout_def get_system_site_def Let_def split: sum.splits)

theorem resolve_layout_unknown_witness:
  "resolve_layout opt_host ''arch'' 3 12 [] =
     (Inr (PyList [PyStr ''/opt/python/site-packages''], PyList [PyStr ''/opt/python/site-packages'']),
      [site_command])
   \<and> resolve_layout failing_host ''arch'' 3 12 [] = (Inl (CalledProcessError 127), [site_command])
   \<and> resolve_layout garbled_host ''arch'' 3 12 [] = (Inl SyntaxError, [site_command])
   \<and> resolve_layout missing_env_host ''arch'' 3 12 [] = (Inl FileNotFoundError, [site_command])"
proof -
  have arch: "''arch'' \<noteq> ''fedora'' \<and> ''arch'' \<noteq> ''ubuntu'' \<and> \<not> startswith ''arch'' ''opensuse''"
    by simp
  let ?out = "\<lparr>returncode = 0, stdout = ''['/opt/python/site-packages']'' @ [CHR 0x0A]\<rparr>"
  have ok: "subprocess_run opt_host site_command = Inr ?out \<and> returncode ?out = 0 \<and>
      literal_eval opt_host (strip (stdout ?out)) =
        Inr (PyList (map PyStr [''/opt/python/site-packages'']))"
    by (simp add: opt_host_def strip_def isspace1_def isspace2_def isspace3_def byte_def)
  have o1: "snd (resolve_layout opt_host ''arch'' 3 12 []) = [] @ [site_command]"
    using arch
    by (rule resolve_layout_unknown [where DISTRO = "''arch''" and major = 3 and minor = 12
          and calls = "[]" and h = opt_host, THEN mp, THEN conjunct1])
  have "fst (resolve_layout opt_host ''arch'' 3 12 []) =
      Inr (PyList (map PyStr [''/opt/python/site-packages'']),
           PyList (map PyStr [''/opt/python/site-packages'']))"
    using arch ok
    by (rule resolve_layout_unknown [where DISTRO = "''arch''" and major = 3 and minor = 12
          and calls = "[]" and h = opt_host and cp = ?out
          and dirs = "[''/opt/python/site-packages'']",
          THEN mp, THEN conjunct2, THEN conjunct2, THEN conjunct1, THEN mp])
  then have o2: "fst (resolve_layout opt_host ''arch'' 3 12 []) =
      Inr (PyList [PyStr ''/opt/python/site-packages''], PyList [PyStr ''/opt/python/site-packages''])"
    by simp
  let ?bad = "\<lparr>returncode = 127, stdout = []\<rparr>"
  have bad: "subprocess_run failing_host site_command = Inr ?bad \<and> returncode ?bad \<noteq> 0"
    by (simp add: failing_host_def)
  have f1: "snd (resolve_layout failing_host ''arch'' 3 12 []) = [] @ [site_command]"
    using arch
    by (rule resolve_layout_unknown [where DISTRO = "''arch''" and major = 3 and minor = 12
          and calls = "[]" and h = failing_host, THEN mp, THEN conjunct1])
  have "fst (resolve_layout failing_host ''arch'' 3 12 []) =
      Inl (CalledProcessError (returncode ?bad))"
    using arch bad
    by (rule resolve_layout_unknown [where DISTRO = "''arch''" and major = 3 and minor = 12
          and calls = "[]" and h = failing_host and cp = ?bad,
          THEN mp, THEN conjunct2, THEN conjunct2, THEN conjunct2, THEN conjunct1, THEN mp])
  then have f2: "fst (resolve_layout failing_host ''arch'' 3 12 []) = Inl (CalledProcessError 127)"
    by simp
  let ?junk = "\<lparr>returncode = 0, stdout = ''Traceback''\<rparr>"
  have garbled: "subprocess_run garbled_host site_command = Inr ?junk \<and> returncode ?junk = 0 \<and>
      literal_eval garbled_host (strip (stdout ?junk)) = Inl SyntaxError"
    by (simp add: garbled_host_def)
  have g1: "snd (resolve_layout garbled_host ''arch'' 3 12 []) = [] @ [site_command]"
    using arch
    by (rule resolve_layout_unknown [where DISTRO = "''arch''" and major = 3 and minor = 12
          and calls = "[]" and h = garbled_host, THEN mp, THEN conjunct1])
  have g2: "fst (resolve_layout garbled_host ''arch'' 3 12 []) = Inl SyntaxError"
    using arch garbled
    by (rule resolve_layout_unknown [where DISTRO = "''arch''" and major = 3 and minor = 12
          and calls = "[]" and h = garbled_host and cp = ?junk and err = SyntaxError,
          THEN mp, THEN conjunct2, THEN conjunct2, THEN conjunct2, THEN conjunct2,
          THEN conjunct1, THEN mp])
  have noenv: "subprocess_run missing_env_host site_command = Inl FileNotFoundError"
    by (simp add: missing_env_host_def)
  have m1: "snd (resolve_layout missing_env_host ''arch'' 3 12 []) = [] @ [site_command]"
    using arch
    by (rule resolve_layout_unknown [where DISTRO = "''arch''" and major = 3 and minor = 12
          and calls = "[]" and h = missing_env_host, THEN mp, THEN conjunct1])
  have m2: "fst (resolve_layout missing_env_host ''arch'' 3 12 []) = Inl FileNotFoundError"
    using arch noenv
    by (rule resolve_layout_unknown [where DISTRO = "''arch''" and major = 3 and minor = 12
          and calls = "[]" and h = missing_env_host and err = FileNotFoundError,
          THEN mp, THEN conjunct2, THEN conjunct2, THEN conjunct2, THEN conjunct2,
          THEN conjunct2, THEN mp])
  show ?thesis
    using o1 o2 f1 f2 g1 g2 m1 m2 by (simp add: prod_eq_iff)
qed

text \<open>
  C8. For \<^verbatim>\<open>fedora\<close>, \<^verbatim>\<open>ubuntu\<close> and every identifier that starts with
  \<^verbatim>\<open>opensuse\<close>, and for every version, resolution succeeds with two non-empty
  lists, makes no subprocess call (the log is unchanged) and does not depend on
  the host's answers. For \<^verbatim>\<open>fedora\<close> and version 3.12 the package roots are
  \<^verbatim>\<open>/usr/lib/python3.12/site-packages/\<close> and the metadata roots are
  \<^verbatim>\<open>/usr/lib64/python3.12/site-packages/\<close>.
\<close>

theorem resolve_layout_known:
  "(DISTRO = ''fedora'' \<or> DISTRO = ''ubuntu'' \<or> startswith DISTRO ''opensuse'' \<longrightarrow>
      (\<exists>pkg_roots meta_roots.
         resolve_layout h DISTRO major minor calls =
           (Inr (PyList (map PyStr pkg_roots), PyList (map PyStr meta_roots)), calls)
         \<and> pkg_roots \<noteq> [] \<and> meta_roots \<noteq> []
         \<and> resolve_layout h' DISTRO major minor calls =
             (Inr (PyList (map PyStr pkg_roots), PyList (map PyStr meta_roots)), calls)))
   \<and> resolve_layout h ''fedora'' 3 12 calls =
       (Inr (PyList [PyStr ''/usr/lib/python3.12/site-packages/''],
             PyList [PyStr ''/usr/lib64/python3.12/site-packages/'']), calls)"
proof (intro conjI impI)
  let ?V = "str_nat major @ ''.'' @ str_nat minor"
  assume "DISTRO = ''fedora'' \<or> DISTRO = ''ubuntu'' \<or> startswith DISTRO ''opensuse''"
  then consider (fedora) "DISTRO = ''fedora''" | (ubuntu) "DISTRO = ''ubuntu''"
    | (suse) "DISTRO \<noteq> ''fedora''" "DISTRO \<noteq> ''ubuntu''" "startswith DISTRO ''opensuse''"
    by blast
  then show "\<exists>pkg_roots meta_roots.
         resolve_layout h DISTRO major minor calls =
           (Inr (PyList (map PyStr pkg_roots), PyList (map PyStr meta_roots)), calls)
         \<and> pkg_roots \<noteq> [] \<and> meta_roots \<noteq> []
         \<and> resolve_layout h' DISTRO major minor calls =
             (Inr (PyList (map PyStr pkg_roots), PyList (map PyStr meta_roots)), calls)"
  proof cases
    case fedora
    show ?thesis
      by (rule exI [where x = "[''/usr/lib/python'' @ ?V @ ''/site-packages/'']"],
          rule exI [where x = "[''/usr/lib64/python'' @ ?V @ ''/site-packages/'']"])
         (simp add: fedora resolve_layout_def Let_def)
  next
    case ubuntu
    show ?thesis
      by (rule exI [where x = "[''/usr/lib/python3/dist-packages/'']"],
          rule exI [where x = "[''/usr/lib/python3/dist-packages/'']"])
         (simp add: ubuntu resolve_layout_def Let_def)
  next
    case suse
    show ?thesis
      by (rule exI [where x = "[''/usr/lib64/python'' @ ?V @ ''/site-packages/'']"],
          rule exI [where x = "[''/usr/lib64/python'' @ ?V @ ''/site-packages/'']"])
         (simp add: suse resolve_layout_def Let_def)
  qed
next
  have "str_nat 3 = ''3''" "str_nat 12 = ''12''"
    by (simp_all add: str_nat.simps digit_def)
  then show "resolve_layout h ''fedora'' 3 12 calls =
       (Inr (PyList [PyStr ''/usr/lib/python3.12/site-packages/''],
             PyList [PyStr ''/usr/lib64/python3.12/site-packages/'']), calls)"
    by (simp add: resolve_layout_def Let_def)
qed

theorem resolve_layout_known_witness:
  "startswith ''opensuse-tumbleweed'' ''opensuse''
   \<and> (\<exists>pkg_roots meta_roots.
         resolve_layout failing_host ''opensuse-tumbleweed'' 3 11 [] =
           (Inr (PyList (map PyStr pkg_roots), PyList (map PyStr meta_roots)), [])
         \<and> pkg_roots \<noteq> [] \<and> meta_roots \<noteq> []
         \<and> resolve_layout opt_host ''opensuse-tumbleweed'' 3 11 [] =
             (Inr (PyList (map PyStr pkg_roots), PyList (map PyStr meta_roots)), []))
   \<and> resolve_layout failing_host ''opensuse-tumbleweed'' 3 11 [] =
       (Inr (PyList [PyStr ''/usr/lib64/python3.11/site-packages/''],
             PyList [PyStr ''/usr/lib64/python3.11/site-packages/'']), [])
   \<and> resolve_layout failing_host ''ubuntu'' 3 12 [] =
       (Inr (PyList [PyStr ''/usr/lib/python3/dist-packages/''],
             PyList [PyStr ''/usr/lib/python3/dist-packages/'']), [])
   \<and> resolve_layout failing_host ''fedora'' 3 12 [] =
       (Inr (PyList [PyStr ''/usr/lib/python3.12/site-packages/''],
             PyList [PyStr ''/usr/lib64/python3.12/site-packages/'']), [])"
proof -
  have suse: "startswith ''opensuse-tumbleweed'' ''opensuse''"
    by simp
  then have known: "''opensuse-tumbleweed'' = ''fedora'' \<or> ''opensuse-tumbleweed'' = ''ubuntu'' \<or>
      startswith ''opensuse-tumbleweed'' ''opensuse''"
    by simp
  have ex: "\<exists>pkg_roots meta_roots.
         resolve_layout failing_host ''opensuse-tumbleweed'' 3 11 [] =
           (Inr (PyList (map PyStr pkg_roots), PyList (map PyStr meta_roots)), [])
         \<and> pkg_roots \<noteq> [] \<and> meta_roots \<noteq> []
         \<and> resolve_layout opt_host ''opensuse-tumbleweed'' 3 11 [] =
             (Inr (PyList (map PyStr pkg_roots), PyList (map PyStr meta_roots)), [])"
    using known
    by (rule resolve_layout_known [where h = failing_host and h' = opt_host
          and DISTRO = "''opensuse-tumbleweed''" and major = 3 and minor = 11 and calls = "[]",
          THEN conjunct1, THEN mp])
  have v: "str_nat 3 = ''3''" "str_nat 11 = ''11''"
    by (simp_all add: str_nat.simps digit_def)
  have tw: "resolve_layout failing_host ''opensuse-tumbleweed'' 3 11 [] =
       (Inr (PyList [PyStr ''/usr/lib64/python3.11/site-packages/''],
             PyList [PyStr ''/usr/lib64/python3.11/site-packages/'']), [])"
    by (simp add: resolve_layout_def Let_def v)
  have ub: "resolve_layout failing_host ''ubuntu'' 3 12 [] =
       (Inr (PyList [PyStr ''/usr/lib/python3/dist-packages/''],
             PyList [PyStr ''/usr/lib/python3/dist-packages/'']), [])"
    by (simp add: resolve_layout_def Let_def)
  have fe: "resolve_layout failing_host ''fedora'' 3 12 [] =
       (Inr (PyList [PyStr ''/usr/lib/python3.12/site-packages/''],
             PyList [PyStr ''/usr/lib64/python3.12/site-packages/'']), [])"
    by (rule resolve_layout_known [where h = failing_host and calls = "[]", THEN conjunct2])
  show ?thesis
    using suse ex tw ub fe by (intro conjI)
qed

end
